theory Spec2Isabelle
  imports Complex_Main "HOL-Library.Multiset"
begin

section \<open>Python list slicing and the train/validation split\<close>

text \<open>
  \<^verbatim>\<open>data[:k]\<close> and \<^verbatim>\<open>data[k:]\<close> on a Python list: a negative bound counts from the
  end, and every bound is clamped to the range \<open>0 .. len(data)\<close>; slicing never raises.
\<close>

definition slice_bound :: "int \<Rightarrow> nat \<Rightarrow> nat" where
  "slice_bound k n = (if k < 0 then nat (max 0 (int n + k)) else min (nat k) n)"

definition slice_to :: "'a list \<Rightarrow> int \<Rightarrow> 'a list" where
  "slice_to data k = take (slice_bound k (length data)) data"

definition slice_from :: "'a list \<Rightarrow> int \<Rightarrow> 'a list" where
  "slice_from data k = drop (slice_bound k (length data)) data"

text \<open>
  \<^verbatim>\<open>
  def data_split(data):
      split_index = len(data) - len(data)//10
      return data[:split_index], data[split_index:]
  \<close>
  Python integers are unbounded, and \<^verbatim>\<open>//\<close> rounds down.
\<close>

definition data_split :: "'a list \<Rightarrow> 'a list \<times> 'a list" where
  "data_split data =
     (let split_index = int (length data) - int (length data) div 10
      in (slice_to data split_index, slice_from data split_index))"

text \<open>The cut position as a natural number, for stating the results.\<close>

definition cut_index :: "nat \<Rightarrow> nat" where
  "cut_index n = n - n div 10"

section \<open>External collaborators\<close>

text \<open>
  The script wires library calls together. The libraries (the pretrained model, its
  processor and tokenizer, the optimizer, the autograd engine) are not part of the
  repository, so they enter the embedding as the fields of one record of functions, each
  with the arguments the script passes and the result the script uses. Tensors of token
  ids are lists of rows of integers; pixel tensors, model parameters, optimizer moments
  and gradients stay abstract (type variables). Loss values are machine floats: their
  type \<open>'l\<close> is abstract too, and the float operations the script applies to them
  (the conversion of an integer, the addition of line 134 and 162, the division of line
  136 and 164) are fields of the record, so that nothing is assumed of their rounding.
  Learning rates are real numbers. Moving a tensor to the device does not change its
  value and is the identity here.
\<close>

type_synonym token_ids = "int list list"

datatype py_error = ZeroDivisionError | ValueError

record 'px inputs =
  input_ids :: token_ids
  pixel_values :: 'px

record ('img, 'px, 'p, 'o, 'g, 'l) ext =
  processor_call :: "string list \<Rightarrow> 'img list \<Rightarrow> 'px inputs"
  encode :: "string \<Rightarrow> int list"
  pad_token_id :: int
  forward_loss :: "bool \<Rightarrow> 'p \<Rightarrow> token_ids \<Rightarrow> 'px \<Rightarrow> token_ids \<Rightarrow> 'l"
  backward :: "bool \<Rightarrow> 'p \<Rightarrow> token_ids \<Rightarrow> 'px \<Rightarrow> token_ids \<Rightarrow> 'g option \<Rightarrow> 'g option"
  adamw_init :: "'p \<Rightarrow> 'o"
  adamw_step :: "real \<Rightarrow> 'o \<Rightarrow> 'p \<Rightarrow> 'g option \<Rightarrow> 'o \<times> 'p"
  generate :: "'p \<Rightarrow> token_ids \<Rightarrow> 'px \<Rightarrow> nat \<Rightarrow> nat \<Rightarrow> token_ids"
  batch_decode :: "token_ids \<Rightarrow> bool \<Rightarrow> string list"
  post_process_generation :: "string \<Rightarrow> string \<Rightarrow> nat \<times> nat \<Rightarrow> string"
  pixel_shape :: "'px \<Rightarrow> nat \<times> nat"
  float_of_int :: "int \<Rightarrow> 'l"
  float_add :: "'l \<Rightarrow> 'l \<Rightarrow> 'l"
  float_div :: "'l \<Rightarrow> 'l \<Rightarrow> 'l"

text \<open>
  Modelled from the spec: the tokenizer is library code, of which the spec says that the
  labels are encoded from the raw answer strings by the text-only path of the encoder and
  that padding uses the encoder's default pad token. So
  \<^verbatim>\<open>processor.tokenizer(text=answers, return_tensors="pt", padding=True,
  return_token_type_ids=False).input_ids\<close> encodes every answer on its own
  (\<open>encode\<close>), and \<^verbatim>\<open>padding=True\<close> fills every row on the right with the
  tokenizer's pad token up to the length of the longest row of the batch.
\<close>

definition pad_to :: "int \<Rightarrow> nat \<Rightarrow> int list \<Rightarrow> int list" where
  "pad_to p n row = row @ replicate (n - length row) p"

definition longest :: "'a list list \<Rightarrow> nat" where
  "longest rows = foldr max (map length rows) 0"

definition tokenizer_padded ::
  "('img, 'px, 'p, 'o, 'g, 'l) ext \<Rightarrow> string list \<Rightarrow> token_ids" where
  "tokenizer_padded X texts =
     (let rows = map (encode X) texts
      in map (pad_to (pad_token_id X) (longest rows)) rows)"

section \<open>The observable trace and the training state\<close>

text \<open>
  Every call the script makes to a collaborator, and every line it prints, is one event,
  with the arguments of the call. \<open>Forward\<close> records the mode of the model
  (\<^verbatim>\<open>model.train()\<close> or \<^verbatim>\<open>model.eval()\<close>) and whether gradient tracking is
  enabled, then the three arguments \<^verbatim>\<open>input_ids\<close>, \<^verbatim>\<open>pixel_values\<close>,
  \<^verbatim>\<open>labels\<close>.
\<close>

datatype ('px, 'p, 'l) event =
    ModelTrain
  | ModelEval
  | Tokenizer "string list"
  | Forward bool bool token_ids 'px token_ids
  | PrintLoss 'l
  | Generate token_ids 'px nat nat
  | BatchDecode token_ids bool
  | PostProcess string string "nat \<times> nat"
  | PrintGT string
  | PrintPred string
  | LossBackward
  | OptimizerStep real
  | SchedulerStep
  | ZeroGrad
  | LossItem 'l
  | PrintAvgTrain 'l
  | PrintAvgVal 'l
  | NoGradEnter
  | NoGradExit
  | MakeDirs string bool
  | SaveModel string 'p
  | SaveProcessor string

record ('p, 'o, 'g) tstate =
  params :: 'p
  grads :: "'g option"
  opt_state :: 'o
  lr :: real
  base_lr :: real
  num_training_steps :: nat
  last_epoch :: nat
  training :: bool
  grad_enabled :: bool

text \<open>
  Modelled from the spec: the scheduler is library code, of which the spec says "linear
  decay from the configured rate to zero over the full multi-epoch training-step budget,
  no warmup". In the form the library computes it,
  \<^verbatim>\<open>get_scheduler(name="linear", optimizer, num_warmup_steps, num_training_steps)\<close>
  multiplies the optimizer's initial rate by a factor of the number of scheduler steps
  taken so far (\<open>last_epoch\<close>): the factor rises linearly during the warmup steps and
  then falls linearly to zero at \<open>num_training_steps\<close>. The script fixes the arguments
  (no warmup, \<open>epochs * len(train_loader)\<close> steps).
\<close>

definition lr_lambda :: "nat \<Rightarrow> nat \<Rightarrow> nat \<Rightarrow> real" where
  "lr_lambda num_warmup num_training current_step =
     (if current_step < num_warmup
      then real current_step / real (max 1 num_warmup)
      else max 0 (real_of_int (int num_training - int current_step)
                  / real_of_int (max 1 (int num_training - int num_warmup))))"

text \<open>The rate the script's scheduler sets after \<open>k\<close> steps: no warmup.\<close>

definition scheduled_rate :: "real \<Rightarrow> nat \<Rightarrow> nat \<Rightarrow> real" where
  "scheduled_rate lr0 num_training k = lr0 * lr_lambda 0 num_training k"

definition scheduler_step :: "('p, 'o, 'g) tstate \<Rightarrow> ('p, 'o, 'g) tstate" where
  "scheduler_step st =
     st\<lparr>last_epoch := last_epoch st + 1,
        lr := base_lr st * lr_lambda 0 (num_training_steps st) (last_epoch st + 1)\<rparr>"

text \<open>
  The state after the first lines of \<^verbatim>\<open>train_model\<close>: a fresh optimizer at rate
  \<^verbatim>\<open>lr\<close> and a scheduler that has taken no step (constructing it sets the rate to
  the initial rate times the factor at step 0).
\<close>

definition init_state ::
  "('img, 'px, 'p, 'o, 'g, 'l) ext \<Rightarrow> 'p \<Rightarrow> bool \<Rightarrow> real \<Rightarrow> nat \<Rightarrow> ('p, 'o, 'g) tstate" where
  "init_state X model_params model_training lr0 budget =
     \<lparr>params = model_params, grads = None, opt_state = adamw_init X model_params,
      lr = lr0 * lr_lambda 0 budget 0, base_lr = lr0, num_training_steps = budget,
      last_epoch = 0, training = model_training, grad_enabled = True\<rparr>"

section \<open>Batch loading\<close>

text \<open>
  Modelled from the spec: the batch loader is library code, of which the spec says that
  it groups the samples into batches through the collator and that the order of the
  training batches is shuffled anew at each epoch boundary. So
  \<^verbatim>\<open>DataLoader(dataset, batch_size, collate_fn, shuffle)\<close> is a loader over an
  indexable dataset, with the library's default \<^verbatim>\<open>drop_last=False\<close>. Each iteration
  over the loader
  draws a fresh order when \<open>shuffle\<close> is set, cuts the samples into batches of
  \<open>batch_size\<close> and collates each batch. \<open>len(loader)\<close> is the number of batches.
  The random order is built from a stream of random draws \<open>r\<close>: element by element,
  each sample is inserted at a drawn position of the order built so far.
\<close>

record ('s, 'b) loader =
  ld_dataset :: "'s list"
  ld_batch_size :: nat
  ld_collate :: "'s list \<Rightarrow> 'b"
  ld_shuffle :: bool

definition insert_at :: "nat \<Rightarrow> 'a \<Rightarrow> 'a list \<Rightarrow> 'a list" where
  "insert_at k x ys = take k ys @ x # drop k ys"

fun shuffle_list :: "(nat \<Rightarrow> nat) \<Rightarrow> 'a list \<Rightarrow> 'a list" where
  "shuffle_list r [] = []"
| "shuffle_list r (x # xs) =
     insert_at (r (length xs) mod Suc (length xs)) x (shuffle_list r xs)"

function chunks :: "nat \<Rightarrow> 'a list \<Rightarrow> 'a list list" where
  "chunks b xs = (if b = 0 \<or> xs = [] then [] else take b xs # chunks b (drop b xs))"
  by pat_completeness auto
termination
  by (relation "measure (\<lambda>(b, xs). length xs)") auto

declare chunks.simps [simp del]

definition len_loader :: "('s, 'b) loader \<Rightarrow> nat" where
  "len_loader ld = (length (ld_dataset ld) + ld_batch_size ld - 1) div ld_batch_size ld"

definition sampled :: "(nat \<Rightarrow> nat) \<Rightarrow> ('s, 'b) loader \<Rightarrow> 's list" where
  "sampled r ld =
     (if ld_shuffle ld then shuffle_list r (ld_dataset ld) else ld_dataset ld)"

definition iter_loader :: "(nat \<Rightarrow> nat) \<Rightarrow> ('s, 'b) loader \<Rightarrow> 'b list" where
  "iter_loader r ld = map (ld_collate ld) (chunks (ld_batch_size ld) (sampled r ld))"

text \<open>
  \<^verbatim>\<open>
  def collate_fn(batch):
      questions, answers, images = zip(*batch)
      inputs = processor(text=list(questions), images=list(images),
                         return_tensors="pt", padding=True).to(device)
      return inputs, answers
  \<close>
\<close>

type_synonym 'img sample = "string \<times> string \<times> 'img"

type_synonym 'px batch = "'px inputs \<times> string list"

definition collate_fn ::
  "('img, 'px, 'p, 'o, 'g, 'l) ext \<Rightarrow> 'img sample list \<Rightarrow> 'px batch" where
  "collate_fn X batch =
     (let questions = map fst batch;
          answers = map (\<lambda>s. fst (snd s)) batch;
          images = map (\<lambda>s. snd (snd s)) batch
      in (processor_call X questions images, answers))"

section \<open>The training loop\<close>

definition task_tag :: string where
  "task_tag = ''<MORE_DETAILED_DANBOORU_CAPTION>''"

text \<open>
  Lines 105 to 127 of \<^verbatim>\<open>train.py\<close>: print the loss, generate with beam search,
  decode, then post-process and print each generated text beside its answer
  (\<^verbatim>\<open>zip\<close> stops at the shorter of the two sequences). The function returns the
  events only: nothing in these lines assigns to the loss, the model or the optimizer.
\<close>

definition diagnostics ::
  "('img, 'px, 'p, 'o, 'g, 'l) ext \<Rightarrow> ('p, 'o, 'g) tstate \<Rightarrow> 'px inputs \<Rightarrow> string list \<Rightarrow> 'l
     \<Rightarrow> ('px, 'p, 'l) event list" where
  "diagnostics X st inp answers loss =
     (let generated_ids = generate X (params st) (input_ids inp) (pixel_values inp) 1024 3;
          generated_texts = batch_decode X generated_ids False;
          image_size = pixel_shape X (pixel_values inp)
      in [PrintLoss loss,
          Generate (input_ids inp) (pixel_values inp) 1024 3,
          BatchDecode generated_ids False]
         @ concat (map (\<lambda>(generated_text, answer).
              [PostProcess generated_text task_tag image_size,
               PrintGT answer,
               PrintPred (post_process_generation X generated_text task_tag image_size)])
            (zip generated_texts answers)))"

text \<open>
  One pass of the body of the training loop, lines 88 to 134, for the batch whose index
  (after \<^verbatim>\<open>i += 1\<close>) is \<open>i\<close>. It returns the events of the pass, the new state and
  the value of \<^verbatim>\<open>loss.item()\<close>.
\<close>

definition train_step ::
  "('img, 'px, 'p, 'o, 'g, 'l) ext \<Rightarrow> int \<Rightarrow> 'px batch \<Rightarrow> ('p, 'o, 'g) tstate
     \<Rightarrow> ('px, 'p, 'l) event list \<times> ('p, 'o, 'g) tstate \<times> 'l" where
  "train_step X i batch st =
     (let inp = fst batch;
          answers = snd batch;
          labels = tokenizer_padded X answers;
          loss = forward_loss X (training st) (params st)
                   (input_ids inp) (pixel_values inp) labels;
          diag = (if i mod 200 = 0 then diagnostics X st inp answers loss else []);
          g = backward X (training st) (params st)
                (input_ids inp) (pixel_values inp) labels (grads st);
          stepped = adamw_step X (lr st) (opt_state st) (params st) g;
          st1 = st\<lparr>grads := g, opt_state := fst stepped, params := snd stepped\<rparr>;
          st2 = scheduler_step st1;
          st3 = st2\<lparr>grads := None\<rparr>
      in ([Tokenizer answers,
           Forward (training st) (grad_enabled st) (input_ids inp) (pixel_values inp) labels]
          @ diag
          @ [LossBackward, OptimizerStep (lr st), SchedulerStep, ZeroGrad, LossItem loss],
          st3, loss))"

text \<open>
  The running totals \<^verbatim>\<open>train_loss\<close> and \<^verbatim>\<open>val_loss\<close> start as the Python
  integer \<open>0\<close> and become floats with the first \<^verbatim>\<open>+= loss.item()\<close>: adding a
  float to a number converts the number to a float and adds the two floats. Dividing a
  number by \<open>len(loader)\<close> raises \<open>ZeroDivisionError\<close> when the length is zero, and
  otherwise converts both to floats and divides them. (A total still is an integer only
  when the loop made no pass, and then it is \<open>0\<close>.)
\<close>

datatype 'l py_number = PyInt int | PyFloat 'l

definition py_float :: "('img, 'px, 'p, 'o, 'g, 'l) ext \<Rightarrow> 'l py_number \<Rightarrow> 'l" where
  "py_float X a = (case a of PyInt k \<Rightarrow> float_of_int X k | PyFloat x \<Rightarrow> x)"

definition py_add :: "('img, 'px, 'p, 'o, 'g, 'l) ext \<Rightarrow> 'l py_number \<Rightarrow> 'l \<Rightarrow> 'l py_number" where
  "py_add X a x = PyFloat (float_add X (py_float X a) x)"

definition py_div ::
  "('img, 'px, 'p, 'o, 'g, 'l) ext \<Rightarrow> 'l py_number \<Rightarrow> nat \<Rightarrow> py_error + 'l" where
  "py_div X a n =
     (if n = 0 then Inl ZeroDivisionError
      else Inr (float_div X (py_float X a) (float_of_int X (int n))))"

text \<open>
  The \<^verbatim>\<open>for batch in train_loader\<close> loop: \<open>i\<close> is the counter before the pass,
  \<open>train_loss\<close> the running total. The events come back as one segment per batch.
\<close>

fun train_loop ::
  "('img, 'px, 'p, 'o, 'g, 'l) ext \<Rightarrow> int \<Rightarrow> 'px batch list \<Rightarrow> ('p, 'o, 'g) tstate
     \<Rightarrow> 'l py_number
     \<Rightarrow> ('px, 'p, 'l) event list list \<times> ('p, 'o, 'g) tstate \<times> 'l py_number" where
  "train_loop X i [] st train_loss = ([], st, train_loss)"
| "train_loop X i (batch # rest) st train_loss =
     (let r1 = train_step X (i + 1) batch st;
          r2 = train_loop X (i + 1) rest (fst (snd r1)) (py_add X train_loss (snd (snd r1)))
      in (fst r1 # fst r2, snd r2))"

text \<open>
  Lines 83 to 137. The loader is iterated once per epoch; the iteration of the training
  loader in epoch \<open>e\<close> draws from the random stream \<open>r (2 * e)\<close>, that of the
  validation loader from \<open>r (2 * e + 1)\<close>. An exception ends the phase with the events
  so far, the state so far and the error.
\<close>

definition train_segments ::
  "('img, 'px, 'p, 'o, 'g, 'l) ext \<Rightarrow> (nat \<Rightarrow> nat \<Rightarrow> nat) \<Rightarrow> nat \<Rightarrow> ('s, 'px batch) loader
     \<Rightarrow> ('p, 'o, 'g) tstate
     \<Rightarrow> ('px, 'p, 'l) event list list \<times> ('p, 'o, 'g) tstate \<times> 'l py_number" where
  "train_segments X r epoch train_loader st =
     train_loop X (- 1) (iter_loader (r (2 * epoch)) train_loader) (st\<lparr>training := True\<rparr>)
       (PyInt 0)"

definition train_phase ::
  "('img, 'px, 'p, 'o, 'g, 'l) ext \<Rightarrow> (nat \<Rightarrow> nat \<Rightarrow> nat) \<Rightarrow> nat \<Rightarrow> ('s, 'px batch) loader
     \<Rightarrow> ('p, 'o, 'g) tstate
     \<Rightarrow> ('px, 'p, 'l) event list \<times> ('p, 'o, 'g) tstate \<times> py_error option" where
  "train_phase X r epoch train_loader st =
     (let res = train_segments X r epoch train_loader st;
          evs = ModelTrain # concat (fst res)
      in case py_div X (snd (snd res)) (len_loader train_loader) of
           Inl err \<Rightarrow> (evs, fst (snd res), Some err)
         | Inr avg_train_loss \<Rightarrow> (evs @ [PrintAvgTrain avg_train_loss], fst (snd res), None))"

section \<open>The validation loop\<close>

definition val_step ::
  "('img, 'px, 'p, 'o, 'g, 'l) ext \<Rightarrow> 'px batch \<Rightarrow> ('p, 'o, 'g) tstate
     \<Rightarrow> ('px, 'p, 'l) event list \<times> 'l" where
  "val_step X batch st =
     (let inp = fst batch;
          answers = snd batch;
          labels = tokenizer_padded X answers;
          loss = forward_loss X (training st) (params st)
                   (input_ids inp) (pixel_values inp) labels
      in ([Tokenizer answers,
           Forward (training st) (grad_enabled st) (input_ids inp) (pixel_values inp) labels,
           LossItem loss],
          loss))"

fun val_loop ::
  "('img, 'px, 'p, 'o, 'g, 'l) ext \<Rightarrow> 'px batch list \<Rightarrow> ('p, 'o, 'g) tstate \<Rightarrow> 'l py_number
     \<Rightarrow> ('px, 'p, 'l) event list \<times> 'l py_number" where
  "val_loop X [] st val_loss = ([], val_loss)"
| "val_loop X (batch # rest) st val_loss =
     (let r1 = val_step X batch st;
          r2 = val_loop X rest st (py_add X val_loss (snd r1))
      in (fst r1 @ fst r2, snd r2))"

text \<open>
  Lines 140 to 165. \<^verbatim>\<open>with torch.no_grad():\<close> switches gradient tracking off on
  entry and restores the previous setting on exit.
\<close>

definition val_phase ::
  "('img, 'px, 'p, 'o, 'g, 'l) ext \<Rightarrow> (nat \<Rightarrow> nat \<Rightarrow> nat) \<Rightarrow> nat \<Rightarrow> ('s, 'px batch) loader
     \<Rightarrow> ('p, 'o, 'g) tstate
     \<Rightarrow> ('px, 'p, 'l) event list \<times> ('p, 'o, 'g) tstate \<times> py_error option" where
  "val_phase X r epoch val_loader st =
     (let st1 = st\<lparr>training := False\<rparr>;
          st2 = st1\<lparr>grad_enabled := False\<rparr>;
          res = val_loop X (iter_loader (r (2 * epoch + 1)) val_loader) st2 (PyInt 0);
          st3 = st2\<lparr>grad_enabled := grad_enabled st1\<rparr>;
          evs = [ModelEval, NoGradEnter] @ fst res @ [NoGradExit]
      in case py_div X (snd res) (len_loader val_loader) of
           Inl err \<Rightarrow> (evs, st3, Some err)
         | Inr avg_val_loss \<Rightarrow> (evs @ [PrintAvgVal avg_val_loss], st3, None))"

section \<open>Checkpoints and the whole run\<close>

text \<open>\<^verbatim>\<open>str\<close> of a non-negative integer, as the f-string formats it.\<close>

definition digit_char :: "nat \<Rightarrow> char" where
  "digit_char d = ''0123456789'' ! d"

fun str_nat :: "nat \<Rightarrow> string" where
  "str_nat n = (if n < 10 then [digit_char n] else str_nat (n div 10) @ [digit_char (n mod 10)])"

declare str_nat.simps [simp del]

definition checkpoint_dir :: "nat \<Rightarrow> string" where
  "checkpoint_dir epoch = ''./model_checkpoints/epoch_'' @ str_nat (epoch + 1)"

text \<open>
  Lines 168 to 171: \<^verbatim>\<open>os.makedirs(output_dir, exist_ok=True)\<close>, then the model and
  the processor save themselves into the directory.
\<close>

definition save_checkpoint :: "nat \<Rightarrow> ('p, 'o, 'g) tstate \<Rightarrow> ('px, 'p, 'l) event list" where
  "save_checkpoint epoch st =
     (let output_dir = checkpoint_dir epoch
      in [MakeDirs output_dir True, SaveModel output_dir (params st), SaveProcessor output_dir])"

definition train_epoch ::
  "('img, 'px, 'p, 'o, 'g, 'l) ext \<Rightarrow> (nat \<Rightarrow> nat \<Rightarrow> nat) \<Rightarrow> ('s, 'px batch) loader
     \<Rightarrow> ('s, 'px batch) loader \<Rightarrow> nat \<Rightarrow> ('p, 'o, 'g) tstate
     \<Rightarrow> ('px, 'p, 'l) event list \<times> ('p, 'o, 'g) tstate \<times> py_error option" where
  "train_epoch X r train_loader val_loader epoch st =
     (let t = train_phase X r epoch train_loader st
      in case snd (snd t) of
           Some err \<Rightarrow> t
         | None \<Rightarrow>
             (let v = val_phase X r epoch val_loader (fst (snd t))
              in case snd (snd v) of
                   Some err \<Rightarrow> (fst t @ fst v, snd v)
                 | None \<Rightarrow>
                     (fst t @ fst v @ save_checkpoint epoch (fst (snd v)),
                      fst (snd v), None)))"

text \<open>\<^verbatim>\<open>for epoch in range(epochs)\<close>, stopping at the first exception.\<close>

fun run_epochs ::
  "('img, 'px, 'p, 'o, 'g, 'l) ext \<Rightarrow> (nat \<Rightarrow> nat \<Rightarrow> nat) \<Rightarrow> ('s, 'px batch) loader
     \<Rightarrow> ('s, 'px batch) loader \<Rightarrow> nat list \<Rightarrow> ('p, 'o, 'g) tstate
     \<Rightarrow> ('px, 'p, 'l) event list \<times> ('p, 'o, 'g) tstate \<times> py_error option" where
  "run_epochs X r train_loader val_loader [] st = ([], st, None)"
| "run_epochs X r train_loader val_loader (epoch # rest) st =
     (let e1 = train_epoch X r train_loader val_loader epoch st
      in case snd (snd e1) of
           Some err \<Rightarrow> e1
         | None \<Rightarrow>
             (let e2 = run_epochs X r train_loader val_loader rest (fst (snd e1))
              in (fst e1 @ fst e2, snd e2)))"

text \<open>
  \<^verbatim>\<open>def train_model(train_loader, val_loader, model, processor, epochs=10, lr=1e-6)\<close>.
  The model comes in as its parameters and its mode.
\<close>

definition train_model ::
  "('img, 'px, 'p, 'o, 'g, 'l) ext \<Rightarrow> (nat \<Rightarrow> nat \<Rightarrow> nat) \<Rightarrow> ('s, 'px batch) loader
     \<Rightarrow> ('s, 'px batch) loader \<Rightarrow> 'p \<Rightarrow> bool \<Rightarrow> nat \<Rightarrow> real
     \<Rightarrow> ('px, 'p, 'l) event list \<times> ('p, 'o, 'g) tstate \<times> py_error option" where
  "train_model X r train_loader val_loader model_params model_training epochs lr0 =
     (let num_training = epochs * len_loader train_loader
      in run_epochs X r train_loader val_loader [0..<epochs]
           (init_state X model_params model_training lr0 num_training))"

section \<open>The script\<close>

text \<open>
  Modelled from the spec: the dataset adapter \<^verbatim>\<open>GrabberDataset\<close> lives in the
  repository's \<^verbatim>\<open>data\<close> module, which is not among the sources. The spec gives it a
  count of samples and random access by index returning (prompt, answer, decoded
  image); it is the list of the triples here. \<^verbatim>\<open>Dataset.from_dict\<close> refuses columns of
  different lengths.
\<close>

definition grabber_dataset ::
  "string list \<Rightarrow> string list \<Rightarrow> 'img list \<Rightarrow> py_error + 'img sample list" where
  "grabber_dataset prompts answers images =
     (if length prompts = length answers \<and> length answers = length images
      then Inr (zip prompts (zip answers images))
      else Inl ValueError)"

text \<open>
  The library refuses a batch size that is not positive, and with \<^verbatim>\<open>shuffle=True\<close>
  it refuses an empty dataset (the random sampler needs a positive number of samples).
\<close>

definition DataLoader ::
  "'s list \<Rightarrow> nat \<Rightarrow> ('s list \<Rightarrow> 'b) \<Rightarrow> bool \<Rightarrow> py_error + ('s, 'b) loader" where
  "DataLoader dataset b collate shuffle =
     (if b = 0 \<or> (shuffle \<and> dataset = []) then Inl ValueError
      else Inr \<lparr>ld_dataset = dataset, ld_batch_size = b, ld_collate = collate,
                ld_shuffle = shuffle\<rparr>)"

definition batch_size :: nat where
  "batch_size = 1"

text \<open>
  Lines 40 to 68: the three sequences from the data generator are split one by one, the
  datasets and the two loaders are built, the training loader with \<^verbatim>\<open>shuffle=True\<close>.
\<close>

definition script_loaders ::
  "('img, 'px, 'p, 'o, 'g, 'l) ext \<Rightarrow> string list \<Rightarrow> string list \<Rightarrow> 'img list
     \<Rightarrow> py_error + (('img sample, 'px batch) loader \<times> ('img sample, 'px batch) loader)" where
  "script_loaders X prompts answers images =
     (let (train_prompts, val_prompts) = data_split prompts;
          (train_answers, val_answers) = data_split answers;
          (train_images, val_images) = data_split images
      in case grabber_dataset train_prompts train_answers train_images of
           Inl err \<Rightarrow> Inl err
         | Inr train_dataset \<Rightarrow>
             (case grabber_dataset val_prompts val_answers val_images of
                Inl err \<Rightarrow> Inl err
              | Inr val_dataset \<Rightarrow>
                  (case DataLoader train_dataset batch_size (collate_fn X) True of
                     Inl err \<Rightarrow> Inl err
                   | Inr train_loader \<Rightarrow>
                       (case DataLoader val_dataset batch_size (collate_fn X) False of
                          Inl err \<Rightarrow> Inl err
                        | Inr val_loader \<Rightarrow> Inr (train_loader, val_loader)))))"

text \<open>Line 173: \<^verbatim>\<open>train_model(train_loader, val_loader, model, processor, epochs=3)\<close>.\<close>

definition main ::
  "('img, 'px, 'p, 'o, 'g, 'l) ext \<Rightarrow> (nat \<Rightarrow> nat \<Rightarrow> nat) \<Rightarrow> string list \<Rightarrow> string list
     \<Rightarrow> 'img list \<Rightarrow> 'p
     \<Rightarrow> py_error + (('px, 'p, 'l) event list \<times> ('p, 'o, 'g) tstate \<times> py_error option)" where
  "main X r prompts answers images model_params =
     (case script_loaders X prompts answers images of
        Inl err \<Rightarrow> Inl err
      | Inr (train_loader, val_loader) \<Rightarrow>
          Inr (train_model X r train_loader val_loader model_params False 3 (1 / 10 ^ 6)))"

section \<open>A scripted run\<close>

text \<open>
  Concrete collaborators for running the definitions: images and pixel tensors are
  numbers, the loss of a batch is its pixel value, the optimizer counts its steps and
  moves the parameter against the gradient, generation echoes the input ids, and the
  floats are real numbers with exact addition and division.
\<close>

definition scripted :: "(nat, nat, real, nat, real, real) ext" where
  "scripted =
     \<lparr>processor_call = (\<lambda>questions images.
         \<lparr>input_ids = map (\<lambda>q. [0, int (length q), 2]) questions,
          pixel_values = sum_list images\<rparr>),
      encode = (\<lambda>a. 0 # replicate (length a) 7 @ [2]),
      pad_token_id = 1,
      forward_loss = (\<lambda>tr p ids px labels. real px),
      backward = (\<lambda>tr p ids px labels g. Some (real px)),
      adamw_init = (\<lambda>p. 0),
      adamw_step = (\<lambda>rate n p g. (Suc n, p - rate * (case g of None \<Rightarrow> 0 | Some v \<Rightarrow> v))),
      generate = (\<lambda>p ids px max_new_tokens num_beams. ids),
      batch_decode = (\<lambda>ids skip. map (\<lambda>row. ''cap'') ids),
      post_process_generation = (\<lambda>t task sz. t),
      pixel_shape = (\<lambda>px. (px, px)),
      float_of_int = real_of_int,
      float_add = (\<lambda>a b. a + b),
      float_div = (\<lambda>a b. a / b)\<rparr>"

definition three_samples :: "nat sample list" where
  "three_samples = [(''q1'', ''a'', 1), (''q2'', ''bb'', 2), (''q3'', ''c'', 6)]"

definition demo_train_loader :: "(nat sample, nat batch) loader" where
  "demo_train_loader =
     \<lparr>ld_dataset = three_samples, ld_batch_size = 1, ld_collate = collate_fn scripted,
      ld_shuffle = True\<rparr>"

definition demo_val_loader :: "(nat sample, nat batch) loader" where
  "demo_val_loader =
     \<lparr>ld_dataset = [(''q4'', ''d'', 4), (''q5'', ''e'', 8)], ld_batch_size = 1,
      ld_collate = collate_fn scripted, ld_shuffle = False\<rparr>"

definition demo_empty_loader :: "(nat sample, nat batch) loader" where
  "demo_empty_loader =
     \<lparr>ld_dataset = [], ld_batch_size = 1, ld_collate = collate_fn scripted,
      ld_shuffle = False\<rparr>"

definition demo_one_loader :: "(nat sample, nat batch) loader" where
  "demo_one_loader =
     \<lparr>ld_dataset = [(''q1'', ''a'', 1)], ld_batch_size = 1, ld_collate = collate_fn scripted,
      ld_shuffle = True\<rparr>"

definition to_back :: "nat \<Rightarrow> nat \<Rightarrow> nat" where
  "to_back k n = n"

definition demo_state :: "(real, nat, real) tstate" where
  "demo_state = init_state scripted 0 False (1 / 10 ^ 6) 3"

section \<open>Reading the trace\<close>

text \<open>The events that only lines 105 to 127 (the diagnostic path) produce.\<close>

fun is_diag :: "('px, 'p, 'l) event \<Rightarrow> bool" where
  "is_diag (PrintLoss l) = True"
| "is_diag (Generate ids px m b) = True"
| "is_diag (BatchDecode ids skip) = True"
| "is_diag (PostProcess t task sz) = True"
| "is_diag (PrintGT a) = True"
| "is_diag (PrintPred c) = True"
| "is_diag ev = False"

text \<open>The values read by \<^verbatim>\<open>loss.item()\<close>, in order.\<close>

fun loss_items :: "('px, 'p, 'l) event list \<Rightarrow> 'l list" where
  "loss_items [] = []"
| "loss_items (LossItem l # evs) = l # loss_items evs"
| "loss_items (ev # evs) = loss_items evs"

text \<open>The events of lines 168 to 171, which write the checkpoint.\<close>

fun is_checkpoint :: "('px, 'p, 'l) event \<Rightarrow> bool" where
  "is_checkpoint (MakeDirs d exist_ok) = True"
| "is_checkpoint (SaveModel d p) = True"
| "is_checkpoint (SaveProcessor d) = True"
| "is_checkpoint ev = False"

text \<open>The events of lines 129 to 132, which change gradients, parameters and rate.\<close>

fun is_update :: "('px, 'p, 'l) event \<Rightarrow> bool" where
  "is_update LossBackward = True"
| "is_update (OptimizerStep rate) = True"
| "is_update SchedulerStep = True"
| "is_update ZeroGrad = True"
| "is_update ev = False"

text \<open>The rates at which \<^verbatim>\<open>optimizer.step()\<close> ran, in order.\<close>

fun optimizer_rates :: "('px, 'p, 'l) event list \<Rightarrow> real list" where
  "optimizer_rates [] = []"
| "optimizer_rates (OptimizerStep rate # evs) = rate # optimizer_rates evs"
| "optimizer_rates (ev # evs) = optimizer_rates evs"

text \<open>The directories \<^verbatim>\<open>os.makedirs\<close> was called on, each with its \<open>exist_ok\<close>.\<close>

fun made_dirs :: "('px, 'p, 'l) event list \<Rightarrow> (string \<times> bool) list" where
  "made_dirs [] = []"
| "made_dirs (MakeDirs d exist_ok # evs) = (d, exist_ok) # made_dirs evs"
| "made_dirs (ev # evs) = made_dirs evs"

text \<open>The answer sequences handed to the tokenizer, and the labels handed to the model.\<close>

fun tokenized :: "('px, 'p, 'l) event list \<Rightarrow> string list list" where
  "tokenized [] = []"
| "tokenized (Tokenizer answers # evs) = answers # tokenized evs"
| "tokenized (ev # evs) = tokenized evs"

fun forward_labels :: "('px, 'p, 'l) event list \<Rightarrow> token_ids list" where
  "forward_labels [] = []"
| "forward_labels (Forward tr ge ids px labels # evs) = labels # forward_labels evs"
| "forward_labels (ev # evs) = forward_labels evs"

text \<open>
  The forward passes of a trace, in order: the mode of the model, whether gradient
  tracking was on, and the three arguments of the call.
\<close>

fun forward_passes ::
  "('px, 'p, 'l) event list \<Rightarrow> (bool \<times> bool \<times> token_ids \<times> 'px \<times> token_ids) list" where
  "forward_passes [] = []"
| "forward_passes (Forward tr ge ids px labels # evs) =
     (tr, ge, ids, px, labels) # forward_passes evs"
| "forward_passes (ev # evs) = forward_passes evs"

section \<open>The split\<close>

lemma split_index_nat: "int n - int n div 10 = int (cut_index n)"
proof -
  have "n div 10 \<le> n" by simp
  then show ?thesis unfolding cut_index_def by (simp add: of_nat_diff zdiv_int)
qed

lemma cut_index_le: "cut_index n \<le> n"
  by (simp add: cut_index_def)

lemma slice_bound_cut_index: "slice_bound (int (cut_index n)) n = cut_index n"
  by (simp add: slice_bound_def cut_index_le)

lemma data_split_take_drop:
  "data_split data = (take (cut_index (length data)) data, drop (cut_index (length data)) data)"
  by (simp add: data_split_def Let_def split_index_nat slice_to_def slice_from_def
      slice_bound_cut_index)

lemma length_val_part: "length (snd (data_split data)) = length data div 10"
  by (simp add: data_split_take_drop cut_index_def)

text \<open>
  C1. For every list, \<open>data_split\<close> returns the prefix and the suffix of the list at
  position \<open>len(data) - len(data)//10\<close>: the validation part has \<open>len(data)//10\<close>
  elements, the two lengths add up to \<open>len(data)\<close>, the two parts concatenate back to
  the input, the training part occupies the positions before the cut and the
  validation part the positions from the cut on (the tail), and a list of 10 elements
  is split 9 to 1.
\<close>

theorem data_split_spec:
  "data_split data =
     (take (length data - length data div 10) data,
      drop (length data - length data div 10) data)
   \<and> length (snd (data_split data)) = length data div 10
   \<and> length (fst (data_split data)) + length (snd (data_split data)) = length data
   \<and> fst (data_split data) @ snd (data_split data) = data
   \<and> (\<forall>i < length (fst (data_split data)). fst (data_split data) ! i = data ! i)
   \<and> (\<forall>i < length (snd (data_split data)).
        snd (data_split data) ! i = data ! (length data - length data div 10 + i))
   \<and> (length data = 10 \<longrightarrow>
        length (fst (data_split data)) = 9 \<and> length (snd (data_split data)) = 1)"
proof -
  let ?k = "length data - length data div 10"
  have eq: "data_split data = (take ?k data, drop ?k data)"
    using data_split_take_drop [of data] by (simp add: cut_index_def)
  have le: "?k \<le> length data" by simp
  have l1: "length (take ?k data) = ?k" using le by simp
  have l2: "length (drop ?k data) = length data div 10" by simp
  have nth2: "\<forall>i < length (drop ?k data). drop ?k data ! i = data ! (?k + i)"
    using le by simp
  show ?thesis
    unfolding eq fst_conv snd_conv using l1 l2 nth2 by auto
qed

theorem data_split_spec_witness:
  "data_split [1, 2, 3, 4, 5, 6, 7, 8, 9, 10 :: nat] = ([1, 2, 3, 4, 5, 6, 7, 8, 9], [10])
   \<and> length (fst (data_split [1, 2, 3, 4, 5, 6, 7, 8, 9, 10 :: nat])) = 9
   \<and> length (snd (data_split [1, 2, 3, 4, 5, 6, 7, 8, 9, 10 :: nat])) = 1
   \<and> snd (data_split [1, 2, 3, 4, 5, 6, 7, 8, 9, 10 :: nat]) ! 0 = 10"
  using data_split_spec [of "[1, 2, 3, 4, 5, 6, 7, 8, 9, 10 :: nat]"] by simp

section \<open>Facts about batch loading\<close>

lemma length_insert_at: "length (insert_at k x ys) = Suc (length ys)"
  by (simp add: insert_at_def)

lemma mset_insert_at: "mset (insert_at k x ys) = add_mset x (mset ys)"
proof -
  have "mset (take k ys) + mset (drop k ys) = mset ys"
    by (metis append_take_drop_id mset_append)
  then show ?thesis by (simp add: insert_at_def)
qed

lemma length_shuffle_list: "length (shuffle_list r xs) = length xs"
  by (induction xs) (simp_all add: length_insert_at)

lemma mset_shuffle_list: "mset (shuffle_list r xs) = mset xs"
  by (induction xs) (simp_all add: mset_insert_at)

lemma chunks_Nil: "chunks b [] = []"
  by (simp add: chunks.simps)

lemma chunks_step: "0 < b \<Longrightarrow> xs \<noteq> [] \<Longrightarrow> chunks b xs = take b xs # chunks b (drop b xs)"
  by (subst chunks.simps) simp

lemma concat_chunks: "0 < b \<Longrightarrow> concat (chunks b xs) = xs"
proof (induction b xs rule: chunks.induct)
  case (1 b xs)
  show ?case
  proof (cases "xs = []")
    case True
    then show ?thesis by (simp add: chunks_Nil)
  next
    case False
    with 1 show ?thesis by (simp add: chunks_step)
  qed
qed

lemma ceil_div_step:
  assumes "0 < b" and "0 < n"
  shows "(n + b - 1) div b = Suc ((n - b + b - 1) div b)"
proof (cases "n \<le> b")
  case True
  have "(n + b - 1) div b = 1"
  proof -
    have "b \<le> n + b - 1" "n + b - 1 < 2 * b" using assms True by simp_all
    then have "b * 1 \<le> n + b - 1" "n + b - 1 < b * Suc 1" by simp_all
    then show ?thesis by (rule div_nat_eqI)
  qed
  moreover have "(n - b + b - 1) div b = 0" using True assms by simp
  ultimately show ?thesis by simp
next
  case False
  then have e1: "n + b - 1 = (n - 1) + b" and e2: "n - b + b - 1 = n - 1"
    using assms by simp_all
  have "((n - 1) + b) div b = Suc ((n - 1) div b)"
    using assms(1) by simp
  then show ?thesis unfolding e1 e2 .
qed

lemma length_chunks: "0 < b \<Longrightarrow> length (chunks b xs) = (length xs + b - 1) div b"
proof (induction b xs rule: chunks.induct)
  case (1 b xs)
  show ?case
  proof (cases "xs = []")
    case True
    with 1 show ?thesis by (simp add: chunks_Nil)
  next
    case False
    then have n: "0 < length xs" by simp
    from 1 False have "length (chunks b (drop b xs)) = (length xs - b + b - 1) div b"
      by simp
    then show ?thesis
      using ceil_div_step [OF "1.prems" n] False "1.prems" by (simp add: chunks_step)
  qed
qed

lemma length_iter_loader:
  "0 < ld_batch_size ld \<Longrightarrow> length (iter_loader r ld) = len_loader ld"
  by (simp add: iter_loader_def len_loader_def length_chunks sampled_def length_shuffle_list)

lemma chunks_one: "chunks (Suc 0) xs = map (\<lambda>x. [x]) xs"
proof (induction xs)
  case Nil
  then show ?case by (simp add: chunks_Nil)
next
  case (Cons x xs)
  then show ?case by (simp add: chunks_step)
qed

section \<open>The diagnostic path\<close>

lemma train_step_events:
  "fst (train_step X i b st) =
     [Tokenizer (snd b),
      Forward (training st) (grad_enabled st) (input_ids (fst b)) (pixel_values (fst b))
        (tokenizer_padded X (snd b))]
     @ (if i mod 200 = 0
        then diagnostics X st (fst b) (snd b)
               (forward_loss X (training st) (params st) (input_ids (fst b))
                  (pixel_values (fst b)) (tokenizer_padded X (snd b)))
        else [])
     @ [LossBackward, OptimizerStep (lr st), SchedulerStep, ZeroGrad,
        LossItem (forward_loss X (training st) (params st) (input_ids (fst b))
                  (pixel_values (fst b)) (tokenizer_padded X (snd b)))]"
  by (simp add: train_step_def Let_def)


lemma diagnostics_all_diag: "filter is_diag (diagnostics X st inp answers l) = diagnostics X st inp answers l"
  by (auto simp: diagnostics_def Let_def filter_id_conv)






lemma demo_batches:
  "iter_loader (to_back k) demo_train_loader =
     [(\<lparr>input_ids = [[0, 2, 2]], pixel_values = 6\<rparr>, [''c'']),
      (\<lparr>input_ids = [[0, 2, 2]], pixel_values = 2\<rparr>, [''bb'']),
      (\<lparr>input_ids = [[0, 2, 2]], pixel_values = 1\<rparr>, [''a''])]"
  by (simp add: iter_loader_def demo_train_loader_def sampled_def three_samples_def
      to_back_def insert_at_def chunks_one collate_fn_def scripted_def)


section \<open>Average losses\<close>

lemma loss_items_append: "loss_items (xs @ ys) = loss_items xs @ loss_items ys"
  by (induction xs rule: loss_items.induct) simp_all

lemma loss_items_diag: "\<forall>ev \<in> set evs. is_diag ev \<Longrightarrow> loss_items evs = []"
  by (induction evs rule: loss_items.induct) auto

lemma loss_items_diagnostics: "loss_items (diagnostics X st inp answers l) = []"
proof (rule loss_items_diag)
  show "\<forall>ev \<in> set (diagnostics X st inp answers l). is_diag ev"
    using diagnostics_all_diag [of X st inp answers l] by (simp add: filter_id_conv)
qed

lemma loss_items_train_step:
  "loss_items (fst (train_step X i b st)) = [snd (snd (train_step X i b st))]"
  by (simp add: train_step_events loss_items_append loss_items_diagnostics)
     (simp add: train_step_def Let_def)

lemma train_step_loss:
  "snd (snd (train_step X i b st)) =
     forward_loss X (training st) (params st) (input_ids (fst b)) (pixel_values (fst b))
       (tokenizer_padded X (snd b))"
  by (simp add: train_step_def Let_def)

lemma py_float_add: "py_float X (py_add X a x) = float_add X (py_float X a) x"
  by (simp add: py_add_def py_float_def)

lemma train_loop_total:
  "py_float X (snd (snd (train_loop X i bs st a)))
     = foldl (float_add X) (py_float X a) (loss_items (concat (fst (train_loop X i bs st a))))"
  by (induction bs arbitrary: i st a)
     (simp_all add: Let_def loss_items_append loss_items_train_step py_float_add)

lemma train_loop_items_length:
  "length (loss_items (concat (fst (train_loop X i bs st a)))) = length bs"
  by (induction bs arbitrary: i st a)
     (simp_all add: Let_def loss_items_append loss_items_train_step)

lemma train_loop_scripted:
  assumes "\<And>tr p ids px l. forward_loss X tr p ids px l = script ids px l"
  shows "loss_items (concat (fst (train_loop X i bs st a))) =
           map (\<lambda>b. script (input_ids (fst b)) (pixel_values (fst b))
                      (tokenizer_padded X (snd b))) bs"
  by (induction bs arbitrary: i st a)
     (simp_all add: Let_def loss_items_append loss_items_train_step train_step_loss assms)

lemma loss_items_val_step: "loss_items (fst (val_step X b st)) = [snd (val_step X b st)]"
  by (simp add: val_step_def Let_def)

lemma val_step_loss:
  "snd (val_step X b st) =
     forward_loss X (training st) (params st) (input_ids (fst b)) (pixel_values (fst b))
       (tokenizer_padded X (snd b))"
  by (simp add: val_step_def Let_def)

lemma val_loop_total:
  "py_float X (snd (val_loop X bs st a))
     = foldl (float_add X) (py_float X a) (loss_items (fst (val_loop X bs st a)))"
  by (induction bs arbitrary: a)
     (simp_all add: Let_def loss_items_append loss_items_val_step py_float_add)

lemma val_loop_items_length:
  "length (loss_items (fst (val_loop X bs st a))) = length bs"
  by (induction bs arbitrary: a)
     (simp_all add: Let_def loss_items_append loss_items_val_step)

lemma val_loop_scripted:
  assumes "\<And>tr p ids px l. forward_loss X tr p ids px l = script ids px l"
  shows "loss_items (fst (val_loop X bs st a)) =
           map (\<lambda>b. script (input_ids (fst b)) (pixel_values (fst b))
                      (tokenizer_padded X (snd b))) bs"
  by (induction bs arbitrary: a)
     (simp_all add: Let_def loss_items_append loss_items_val_step val_step_loss assms)

lemma len_loader_pos: "0 < len_loader ld \<Longrightarrow> 0 < ld_batch_size ld"
  by (cases "ld_batch_size ld = 0") (simp_all add: len_loader_def)

lemma train_phase_events:
  assumes "0 < len_loader tld"
  shows "train_phase X r e tld st =
     (ModelTrain # concat (fst (train_segments X r e tld st))
        @ [PrintAvgTrain
             (float_div X
                (foldl (float_add X) (float_of_int X 0)
                   (loss_items (concat (fst (train_segments X r e tld st)))))
                (float_of_int X (int (len_loader tld))))],
      fst (snd (train_segments X r e tld st)), None)"
  using assms train_loop_total [of X "- 1" "iter_loader (r (2 * e)) tld"
      "st\<lparr>training := True\<rparr>" "PyInt 0"]
  by (simp add: train_phase_def Let_def py_div_def train_segments_def py_float_def)

lemma val_phase_events:
  assumes "0 < len_loader vld"
  shows "fst (val_phase X r e vld st) =
     [ModelEval, NoGradEnter]
       @ fst (val_loop X (iter_loader (r (2 * e + 1)) vld)
                (st\<lparr>training := False, grad_enabled := False\<rparr>) (PyInt 0))
       @ [NoGradExit,
          PrintAvgVal
            (float_div X
               (foldl (float_add X) (float_of_int X 0)
                  (loss_items (fst (val_loop X (iter_loader (r (2 * e + 1)) vld)
                            (st\<lparr>training := False, grad_enabled := False\<rparr>) (PyInt 0)))))
               (float_of_int X (int (len_loader vld))))]
   \<and> snd (snd (val_phase X r e vld st)) = None"
  using assms val_loop_total [of X "iter_loader (r (2 * e + 1)) vld"
      "st\<lparr>training := False, grad_enabled := False\<rparr>" "PyInt 0"]
  by (simp add: val_phase_def Let_def py_div_def py_float_def)

lemma demo_val_batches:
  "iter_loader rs demo_val_loader =
     [(\<lparr>input_ids = [[0, 2, 2]], pixel_values = 4\<rparr>, [''d'']),
      (\<lparr>input_ids = [[0, 2, 2]], pixel_values = 8\<rparr>, [''e''])]"
  by (simp add: iter_loader_def demo_val_loader_def sampled_def chunks_one collate_fn_def
      scripted_def)

lemma demo_lens: "len_loader demo_train_loader = 3" "len_loader demo_val_loader = 2"
  by (simp_all add: len_loader_def demo_train_loader_def demo_val_loader_def
      three_samples_def)

text \<open>
  C3. In every epoch, with a training loader that has at least one batch, the training
  phase ends without error by printing the average training loss, and the printed value
  is the total of the values read by \<open>loss.item()\<close> during the phase divided by
  \<open>len(train_loader)\<close>: the values are added one by one, in the order of the batches,
  to the integer \<open>0\<close> with the float addition, and the total is divided by the length
  (as a float) with the float division. There is one such value per batch and no
  weight. When the collaborator returns scripted losses (a function of the batch only),
  the values added are the scripted losses of the batches in the order of iteration.
  The same holds for the validation phase, its loader and the average validation loss.
  Nothing is assumed of the float operations. The trace of an epoch with both loaders
  non-empty is the trace of its training phase, then that of its validation phase from
  the state the training left, then the checkpoint.
\<close>

theorem average_loss_is_sum_over_batches:
  assumes "0 < len_loader train_loader" and "0 < len_loader val_loader"
  shows
   "last (fst (train_phase X r e train_loader st))
      = PrintAvgTrain
          (float_div X
             (foldl (float_add X) (float_of_int X 0)
                (loss_items (fst (train_phase X r e train_loader st))))
             (float_of_int X (int (len_loader train_loader))))
    \<and> snd (snd (train_phase X r e train_loader st)) = None
    \<and> length (loss_items (fst (train_phase X r e train_loader st))) = len_loader train_loader
    \<and> ((\<forall>tr p ids px l. forward_loss X tr p ids px l = script ids px l) \<longrightarrow>
         loss_items (fst (train_phase X r e train_loader st))
           = map (\<lambda>b. script (input_ids (fst b)) (pixel_values (fst b))
                        (tokenizer_padded X (snd b)))
               (iter_loader (r (2 * e)) train_loader))
    \<and> last (fst (val_phase X r e val_loader st'))
      = PrintAvgVal
          (float_div X
             (foldl (float_add X) (float_of_int X 0)
                (loss_items (fst (val_phase X r e val_loader st'))))
             (float_of_int X (int (len_loader val_loader))))
    \<and> snd (snd (val_phase X r e val_loader st')) = None
    \<and> length (loss_items (fst (val_phase X r e val_loader st'))) = len_loader val_loader
    \<and> ((\<forall>tr p ids px l. forward_loss X tr p ids px l = script ids px l) \<longrightarrow>
         loss_items (fst (val_phase X r e val_loader st'))
           = map (\<lambda>b. script (input_ids (fst b)) (pixel_values (fst b))
                        (tokenizer_padded X (snd b)))
               (iter_loader (r (2 * e + 1)) val_loader))
    \<and> fst (train_epoch X r train_loader val_loader e st)
        = fst (train_phase X r e train_loader st)
          @ fst (val_phase X r e val_loader (fst (snd (train_phase X r e train_loader st))))
          @ save_checkpoint e
              (fst (snd (val_phase X r e val_loader
                           (fst (snd (train_phase X r e train_loader st))))))"
proof -
  let ?segs = "fst (train_segments X r e train_loader st)"
  let ?vst = "st'\<lparr>training := False, grad_enabled := False\<rparr>"
  let ?vevs = "fst (val_loop X (iter_loader (r (2 * e + 1)) val_loader) ?vst (PyInt 0))"
  let ?tn = "float_of_int X (int (len_loader train_loader))"
  let ?vn = "float_of_int X (int (len_loader val_loader))"
  have tb: "0 < ld_batch_size train_loader" and vb: "0 < ld_batch_size val_loader"
    using assms by (auto dest: len_loader_pos)
  have tev: "fst (train_phase X r e train_loader st) =
      ModelTrain # concat ?segs
        @ [PrintAvgTrain (float_div X
             (foldl (float_add X) (float_of_int X 0) (loss_items (concat ?segs))) ?tn)]"
    and tout: "snd (snd (train_phase X r e train_loader st)) = None"
    by (simp_all add: train_phase_events [OF assms(1)])
  have titems: "loss_items (fst (train_phase X r e train_loader st)) = loss_items (concat ?segs)"
    unfolding tev by (simp add: loss_items_append)
  have t1: "last (fst (train_phase X r e train_loader st))
      = PrintAvgTrain (float_div X
          (foldl (float_add X) (float_of_int X 0)
             (loss_items (fst (train_phase X r e train_loader st)))) ?tn)"
    unfolding titems unfolding tev by simp
  have t3: "length (loss_items (fst (train_phase X r e train_loader st))) = len_loader train_loader"
    unfolding titems
    by (simp add: train_segments_def train_loop_items_length length_iter_loader [OF tb])
  have t4: "loss_items (fst (train_phase X r e train_loader st))
           = map (\<lambda>b. script (input_ids (fst b)) (pixel_values (fst b))
                        (tokenizer_padded X (snd b)))
               (iter_loader (r (2 * e)) train_loader)"
    if "\<forall>tr p ids px l. forward_loss X tr p ids px l = script ids px l"
    unfolding titems train_segments_def using that by (intro train_loop_scripted) simp
  have vev: "fst (val_phase X r e val_loader st') =
      [ModelEval, NoGradEnter] @ ?vevs
        @ [NoGradExit, PrintAvgVal (float_div X
             (foldl (float_add X) (float_of_int X 0) (loss_items ?vevs)) ?vn)]"
    and vout: "snd (snd (val_phase X r e val_loader st')) = None"
    using val_phase_events [OF assms(2), of X r e st'] by simp_all
  have vitems: "loss_items (fst (val_phase X r e val_loader st')) = loss_items ?vevs"
    unfolding vev by (simp add: loss_items_append)
  have v1: "last (fst (val_phase X r e val_loader st'))
      = PrintAvgVal (float_div X
          (foldl (float_add X) (float_of_int X 0)
             (loss_items (fst (val_phase X r e val_loader st')))) ?vn)"
    unfolding vitems unfolding vev by simp
  have v3: "length (loss_items (fst (val_phase X r e val_loader st'))) = len_loader val_loader"
    unfolding vitems by (simp add: val_loop_items_length length_iter_loader [OF vb])
  have v4: "loss_items (fst (val_phase X r e val_loader st'))
           = map (\<lambda>b. script (input_ids (fst b)) (pixel_values (fst b))
                        (tokenizer_padded X (snd b)))
               (iter_loader (r (2 * e + 1)) val_loader)"
    if "\<forall>tr p ids px l. forward_loss X tr p ids px l = script ids px l"
    unfolding vitems using that by (intro val_loop_scripted) simp
  have vout': "snd (snd (val_phase X r e val_loader
                          (fst (snd (train_phase X r e train_loader st))))) = None"
    using val_phase_events [OF assms(2), of X r e "fst (snd (train_phase X r e train_loader st))"]
    by simp
  have ep: "fst (train_epoch X r train_loader val_loader e st)
        = fst (train_phase X r e train_loader st)
          @ fst (val_phase X r e val_loader (fst (snd (train_phase X r e train_loader st))))
          @ save_checkpoint e
              (fst (snd (val_phase X r e val_loader
                           (fst (snd (train_phase X r e train_loader st))))))"
    by (simp add: train_epoch_def Let_def tout vout')
  show ?thesis
    using t1 tout t3 t4 v1 vout v3 v4 ep by blast
qed

theorem average_loss_is_sum_over_batches_witness:
  "last (fst (train_phase scripted to_back 0 demo_train_loader demo_state)) = PrintAvgTrain 3
   \<and> loss_items (fst (train_phase scripted to_back 0 demo_train_loader demo_state)) = [6, 2, 1]
   \<and> last (fst (val_phase scripted to_back 0 demo_val_loader demo_state)) = PrintAvgVal 6
   \<and> loss_items (fst (val_phase scripted to_back 0 demo_val_loader demo_state)) = [4, 8]"
proof -
  have pos: "0 < len_loader demo_train_loader" "0 < len_loader demo_val_loader"
    by (simp_all add: demo_lens)
  have scr: "\<forall>tr p ids px l. forward_loss scripted tr p ids px l = real px"
    by (simp add: scripted_def)
  show ?thesis
    using average_loss_is_sum_over_batches [OF pos, of scripted to_back 0 demo_state
        "\<lambda>ids px l. real px" demo_state] scr
    by (simp add: demo_lens demo_batches demo_val_batches) (simp add: scripted_def)
qed

section \<open>Empty loaders and the end of an epoch\<close>

lemma empty_loader: "ld_dataset ld = [] \<Longrightarrow> len_loader ld = 0 \<and> iter_loader r ld = []"
  by (cases "ld_batch_size ld = 0")
     (simp_all add: len_loader_def iter_loader_def sampled_def chunks_Nil)

lemma diag_not_checkpoint: "is_diag ev \<Longrightarrow> \<not> is_checkpoint ev"
  by (cases ev) simp_all

lemma diagnostics_set: "ev \<in> set (diagnostics X st inp answers l) \<Longrightarrow> is_diag ev"
  using diagnostics_all_diag [of X st inp answers l] by (simp add: filter_id_conv)

lemma diagnostics_no_checkpoint: "filter is_checkpoint (diagnostics X st inp answers l) = []"
  by (auto simp: filter_empty_conv dest: diagnostics_set diag_not_checkpoint)

lemma train_step_no_checkpoint: "filter is_checkpoint (fst (train_step X i b st)) = []"
  by (simp add: train_step_events diagnostics_no_checkpoint)

lemma train_loop_no_checkpoint:
  "filter is_checkpoint (concat (fst (train_loop X i bs st a))) = []"
  by (induction bs arbitrary: i st a) (simp_all add: Let_def train_step_no_checkpoint)

lemma val_loop_no_checkpoint: "filter is_checkpoint (fst (val_loop X bs st a)) = []"
  by (induction bs arbitrary: a) (simp_all add: Let_def val_step_def)

lemma train_phase_no_checkpoint: "filter is_checkpoint (fst (train_phase X r e tld st)) = []"
  by (simp add: train_phase_def Let_def train_segments_def train_loop_no_checkpoint
      split: sum.splits)

lemma val_phase_no_checkpoint: "filter is_checkpoint (fst (val_phase X r e vld st)) = []"
  by (simp add: val_phase_def Let_def val_loop_no_checkpoint split: sum.splits)

lemma train_phase_error:
  "snd (snd (train_phase X r e tld st)) =
     (if len_loader tld = 0 then Some ZeroDivisionError else None)"
  by (simp add: train_phase_def Let_def py_div_def)

lemma val_phase_error:
  "snd (snd (val_phase X r e vld st)) =
     (if len_loader vld = 0 then Some ZeroDivisionError else None)"
  by (simp add: val_phase_def Let_def py_div_def)

lemma val_phase_empty:
  "ld_dataset vld = [] \<Longrightarrow> fst (val_phase X r e vld st) = [ModelEval, NoGradEnter, NoGradExit]"
  by (simp add: val_phase_def Let_def py_div_def empty_loader)

lemma train_phase_empty:
  "ld_dataset tld = [] \<Longrightarrow>
     train_phase X r e tld st = ([ModelTrain], st\<lparr>training := True\<rparr>, Some ZeroDivisionError)"
  by (simp add: train_phase_def Let_def py_div_def empty_loader train_segments_def)

lemma train_epoch_events:
  "fst (train_epoch X r tld vld e st) =
     (if len_loader tld = 0 then fst (train_phase X r e tld st)
      else if len_loader vld = 0
      then fst (train_phase X r e tld st)
             @ fst (val_phase X r e vld (fst (snd (train_phase X r e tld st))))
      else fst (train_phase X r e tld st)
             @ fst (val_phase X r e vld (fst (snd (train_phase X r e tld st))))
             @ save_checkpoint e (fst (snd (val_phase X r e vld
                                    (fst (snd (train_phase X r e tld st)))))))"
  by (simp add: train_epoch_def Let_def train_phase_error val_phase_error)

lemma train_epoch_error:
  "snd (snd (train_epoch X r tld vld e st)) =
     (if len_loader tld = 0 \<or> len_loader vld = 0 then Some ZeroDivisionError else None)"
  by (simp add: train_epoch_def Let_def train_phase_error val_phase_error)

lemma train_epoch_state:
  "fst (snd (train_epoch X r tld vld e st)) =
     (if len_loader tld = 0 then fst (snd (train_phase X r e tld st))
      else fst (snd (val_phase X r e vld (fst (snd (train_phase X r e tld st))))))"
  by (simp add: train_epoch_def Let_def train_phase_error val_phase_error)

lemma run_epochs_abort:
  "len_loader tld = 0 \<or> len_loader vld = 0 \<Longrightarrow>
     run_epochs X r tld vld (e # es) st = train_epoch X r tld vld e st"
  by (simp add: Let_def train_epoch_error)

lemma train_model_abort:
  assumes "0 < epochs" and "len_loader tld = 0 \<or> len_loader vld = 0"
  shows "train_model X r tld vld p m epochs lr0 =
           train_epoch X r tld vld 0 (init_state X p m lr0 (epochs * len_loader tld))"
proof -
  have "[0..<epochs] = 0 # [1..<epochs]" using assms(1) by (simp add: upt_conv_Cons)
  then show ?thesis
    unfolding train_model_def Let_def using run_epochs_abort [OF assms(2)] by simp
qed

lemma split_zip3:
  assumes "length ps = length as" and "length as = length is"
  shows "zip (fst (data_split ps)) (zip (fst (data_split as)) (fst (data_split is)))
           = fst (data_split (zip ps (zip as is)))"
    and "zip (snd (data_split ps)) (zip (snd (data_split as)) (snd (data_split is)))
           = snd (data_split (zip ps (zip as is)))"
    and "length (fst (data_split as)) = length (fst (data_split ps))"
    and "length (fst (data_split is)) = length (fst (data_split ps))"
    and "length (snd (data_split as)) = length (snd (data_split ps))"
    and "length (snd (data_split is)) = length (snd (data_split ps))"
  using assms by (simp_all add: data_split_take_drop take_zip drop_zip)

lemma script_loaders_aligned:
  assumes "length ps = length as" and "length as = length is" and "ps \<noteq> []"
  shows "script_loaders X ps as is =
     Inr (\<lparr>ld_dataset = fst (data_split (zip ps (zip as is))), ld_batch_size = 1,
            ld_collate = collate_fn X, ld_shuffle = True\<rparr>,
          \<lparr>ld_dataset = snd (data_split (zip ps (zip as is))), ld_batch_size = 1,
            ld_collate = collate_fn X, ld_shuffle = False\<rparr>)"
proof -
  have "0 < length ps" using assms(3) by simp
  then have "length ps div 10 < length ps" by (simp add: div_less_dividend)
  then have "0 < length ps - length ps div 10" by simp
  then have "0 < length (fst (data_split ps))"
    by (simp add: data_split_take_drop cut_index_def)
  then have ne: "fst (data_split ps) \<noteq> []" by simp
  have "length (fst (data_split as)) = length (fst (data_split ps))"
    and "length (fst (data_split is)) = length (fst (data_split ps))"
    using split_zip3 [OF assms(1,2)] by simp_all
  then have ne3: "fst (data_split as) \<noteq> []" "fst (data_split is) \<noteq> []"
    using ne by auto
  have "zip (fst (data_split ps)) (zip (fst (data_split as)) (fst (data_split is))) \<noteq> []"
    using ne ne3 by (simp add: zip_eq_Nil_iff)
  then have nz: "fst (data_split (zip ps (zip as is))) \<noteq> []"
    unfolding split_zip3(1) [OF assms(1,2)] .
  show ?thesis
    using split_zip3 [OF assms(1,2)] nz
    by (simp add: script_loaders_def grabber_dataset_def DataLoader_def batch_size_def
        split_beta)
qed

lemma small_val_empty: "length data < 10 \<Longrightarrow> snd (data_split data) = []"
  by (simp add: data_split_take_drop cut_index_def)

lemma train_model_empty_val:
  assumes ep: "0 < epochs" and ve: "ld_dataset vld = []"
  shows "snd (snd (train_model X r tld vld p m epochs lr0)) = Some ZeroDivisionError
        \<and> filter is_checkpoint (fst (train_model X r tld vld p m epochs lr0)) = []
        \<and> (0 < len_loader tld \<longrightarrow>
             last (fst (train_model X r tld vld p m epochs lr0)) = NoGradExit)"
proof -
  have l0: "len_loader vld = 0" using ve by (simp add: empty_loader)
  have tm: "train_model X r tld vld p m epochs lr0 =
         train_epoch X r tld vld 0 (init_state X p m lr0 (epochs * len_loader tld))"
    using ep l0 by (intro train_model_abort) simp_all
  show ?thesis
    unfolding tm
    by (simp add: train_epoch_error train_epoch_events l0 train_phase_no_checkpoint
        val_phase_no_checkpoint val_phase_empty [OF ve])
qed

text \<open>
  C9. A list of fewer than 10 elements has an empty validation part. When the validation
  loader is empty and at least one epoch is asked for, \<open>train_model\<close> ends with
  \<open>ZeroDivisionError\<close> and has written no checkpoint; if the training loader is not
  empty, the run stops right after the validation loop of the first epoch. When the
  training loader is empty, the run stops at the average training loss of the first
  epoch, after \<open>model.train()\<close> alone. The division yields a value exactly when the
  number of batches is not zero. For the script: three sequences of one length between 1
  and 9 make the run end with \<open>ZeroDivisionError\<close> right after the validation loop of
  the first epoch, with no checkpoint.
\<close>

theorem empty_loader_divides_by_zero:
  "(length data < 10 \<longrightarrow> snd (data_split data) = [])
   \<and> (0 < epochs \<and> ld_dataset val_loader = [] \<longrightarrow>
        snd (snd (train_model X r train_loader val_loader p m epochs lr0))
          = Some ZeroDivisionError
        \<and> filter is_checkpoint (fst (train_model X r train_loader val_loader p m epochs lr0))
          = []
        \<and> (0 < len_loader train_loader \<longrightarrow>
             last (fst (train_model X r train_loader val_loader p m epochs lr0)) = NoGradExit))
   \<and> (0 < epochs \<and> ld_dataset train_loader = [] \<longrightarrow>
        train_model X r train_loader val_loader p m epochs lr0
          = ([ModelTrain], (init_state X p m lr0 0)\<lparr>training := True\<rparr>,
             Some ZeroDivisionError))
   \<and> ((\<exists>avg. py_div X acc n = Inr avg) = (n \<noteq> 0))
   \<and> (py_div X acc 0 = Inl ZeroDivisionError)
   \<and> (length prompts = length answers \<and> length answers = length images
        \<and> 0 < length prompts \<and> length prompts < 10 \<longrightarrow>
        (\<exists>evs st. main X r prompts answers images p = Inr (evs, st, Some ZeroDivisionError)
                  \<and> filter is_checkpoint evs = [] \<and> last evs = NoGradExit))"
proof -
  have B: "train_model X r train_loader val_loader p m epochs lr0
          = ([ModelTrain], (init_state X p m lr0 0)\<lparr>training := True\<rparr>,
             Some ZeroDivisionError)"
    if ep: "0 < epochs" and te: "ld_dataset train_loader = []"
  proof -
    have l0: "len_loader train_loader = 0" using te by (simp add: empty_loader)
    have tm: "train_model X r train_loader val_loader p m epochs lr0 =
           train_epoch X r train_loader val_loader 0
             (init_state X p m lr0 (epochs * len_loader train_loader))"
      using ep l0 by (intro train_model_abort) simp_all
    show ?thesis
      unfolding tm by (simp add: train_epoch_def Let_def train_phase_empty [OF te] l0)
  qed
  have C: "(\<exists>avg. py_div X acc n = Inr avg) = (n \<noteq> 0)"
    and D: "py_div X acc 0 = Inl ZeroDivisionError"
    by (simp_all add: py_div_def)
  have E: "\<exists>evs st. main X r prompts answers images p = Inr (evs, st, Some ZeroDivisionError)
                  \<and> filter is_checkpoint evs = [] \<and> last evs = NoGradExit"
    if eq: "length prompts = length answers" "length answers = length images"
      and pos: "0 < length prompts" and small: "length prompts < 10"
  proof -
    let ?tl = "\<lparr>ld_dataset = fst (data_split (zip prompts (zip answers images))),
                ld_batch_size = 1, ld_collate = collate_fn X, ld_shuffle = True\<rparr>"
    let ?vl = "\<lparr>ld_dataset = snd (data_split (zip prompts (zip answers images))),
                ld_batch_size = 1, ld_collate = collate_fn X, ld_shuffle = False\<rparr>"
    let ?res = "train_model X r ?tl ?vl p False 3 (1 / 10 ^ 6)"
    have "length (zip prompts (zip answers images)) < 10" using eq small by simp
    then have ve: "ld_dataset ?vl = []" by (simp add: small_val_empty)
    have m: "main X r prompts answers images p = Inr ?res"
      using pos by (simp add: main_def script_loaders_aligned [OF eq])
    have "length (fst (data_split (zip prompts (zip answers images)))) = length prompts"
      using eq small by (simp add: data_split_take_drop cut_index_def)
    then have tn: "0 < len_loader ?tl" using pos by (simp add: len_loader_def)
    have "snd (snd ?res) = Some ZeroDivisionError \<and> filter is_checkpoint (fst ?res) = []
        \<and> last (fst ?res) = NoGradExit"
      using train_model_empty_val [of 3 ?vl X r ?tl p False "1 / 10 ^ 6"] ve tn by simp
    then show ?thesis unfolding m by (cases ?res) auto
  qed
  show ?thesis
    using small_val_empty [of data]
      train_model_empty_val [of epochs val_loader X r train_loader p m lr0] B C D E
    by blast
qed

theorem empty_loader_divides_by_zero_witness:
  "snd (data_split [1, 2, 3 :: nat]) = []
   \<and> snd (snd (train_model scripted to_back demo_train_loader demo_empty_loader 0 False 1
                 (1 / 10 ^ 6))) = Some ZeroDivisionError
   \<and> filter is_checkpoint
        (fst (train_model scripted to_back demo_train_loader demo_empty_loader 0 False 1
                (1 / 10 ^ 6))) = []
   \<and> last (fst (train_model scripted to_back demo_train_loader demo_empty_loader 0 False 1
                  (1 / 10 ^ 6))) = NoGradExit
   \<and> train_model scripted to_back demo_empty_loader demo_val_loader 0 False 1 (1 / 10 ^ 6)
       = ([ModelTrain], (init_state scripted 0 False (1 / 10 ^ 6) 0)\<lparr>training := True\<rparr>,
          Some ZeroDivisionError)
   \<and> (\<exists>evs st. main scripted to_back [''q1'', ''q2'', ''q3''] [''a'', ''bb'', ''c''] [1, 2, 6] 0
                   = Inr (evs, st, Some ZeroDivisionError)
                 \<and> filter is_checkpoint evs = [] \<and> last evs = NoGradExit)"
proof -
  note first = empty_loader_divides_by_zero [where data = "[1, 2, 3 :: nat]" and epochs = 1
      and val_loader = demo_empty_loader and X = scripted and r = to_back
      and train_loader = demo_train_loader and p = 0 and m = False and ?lr0.0 = "1 / 10 ^ 6"
      and acc = "PyInt 0" and n = 0
      and prompts = "[''q1'', ''q2'', ''q3'']" and answers = "[''a'', ''bb'', ''c'']"
      and images = "[1, 2, 6]"]
  note second = empty_loader_divides_by_zero [where data = "[1, 2, 3 :: nat]" and epochs = 1
      and val_loader = demo_val_loader and X = scripted and r = to_back
      and train_loader = demo_empty_loader and p = 0 and m = False and ?lr0.0 = "1 / 10 ^ 6"
      and acc = "PyInt 0" and n = 0
      and prompts = "[''q1'', ''q2'', ''q3'']" and answers = "[''a'', ''bb'', ''c'']"
      and images = "[1, 2, 6]"]
  have e: "ld_dataset demo_empty_loader = []" by (simp add: demo_empty_loader_def)
  have t: "0 < len_loader demo_train_loader" by (simp add: demo_lens)
  show ?thesis
    using first second e t by simp
qed

section \<open>Optimizer steps, the schedule and the checkpoints of a run\<close>

lemma optimizer_rates_append:
  "optimizer_rates (xs @ ys) = optimizer_rates xs @ optimizer_rates ys"
  by (induction xs rule: optimizer_rates.induct) simp_all

lemma made_dirs_append: "made_dirs (xs @ ys) = made_dirs xs @ made_dirs ys"
  by (induction xs rule: made_dirs.induct) simp_all

lemma made_dirs_none: "filter is_checkpoint evs = [] \<Longrightarrow> made_dirs evs = []"
  by (induction evs rule: made_dirs.induct) simp_all

lemma optimizer_rates_diag: "\<forall>ev \<in> set evs. is_diag ev \<Longrightarrow> optimizer_rates evs = []"
  by (induction evs rule: optimizer_rates.induct) auto

lemma optimizer_rates_diagnostics: "optimizer_rates (diagnostics X st inp answers l) = []"
  by (rule optimizer_rates_diag) (auto dest: diagnostics_set)

lemma optimizer_rates_train_step: "optimizer_rates (fst (train_step X i b st)) = [lr st]"
  by (simp add: train_step_events optimizer_rates_append optimizer_rates_diagnostics)

lemma optimizer_rates_val_loop: "optimizer_rates (fst (val_loop X bs st a)) = []"
  by (induction bs arbitrary: a) (simp_all add: Let_def val_step_def optimizer_rates_append)

lemma optimizer_rates_val_phase: "optimizer_rates (fst (val_phase X r e vld st)) = []"
  by (simp add: val_phase_def Let_def optimizer_rates_append optimizer_rates_val_loop
      split: sum.splits)

lemma optimizer_rates_checkpoint: "optimizer_rates (save_checkpoint e st) = []"
  by (simp add: save_checkpoint_def Let_def)

text \<open>The scheduler invariant: the rate is the initial rate times the factor.\<close>

lemma train_step_state:
  "last_epoch (fst (snd (train_step X i b st))) = Suc (last_epoch st)"
  "base_lr (fst (snd (train_step X i b st))) = base_lr st"
  "num_training_steps (fst (snd (train_step X i b st))) = num_training_steps st"
  "lr (fst (snd (train_step X i b st)))
     = base_lr st * lr_lambda 0 (num_training_steps st) (Suc (last_epoch st))"
  "training (fst (snd (train_step X i b st))) = training st"
  "grad_enabled (fst (snd (train_step X i b st))) = grad_enabled st"
  by (simp_all add: train_step_def Let_def scheduler_step_def)

lemma train_loop_state:
  "last_epoch (fst (snd (train_loop X i bs st a))) = last_epoch st + length bs
   \<and> base_lr (fst (snd (train_loop X i bs st a))) = base_lr st
   \<and> num_training_steps (fst (snd (train_loop X i bs st a))) = num_training_steps st
   \<and> training (fst (snd (train_loop X i bs st a))) = training st
   \<and> grad_enabled (fst (snd (train_loop X i bs st a))) = grad_enabled st"
  by (induction bs arbitrary: i st a) (simp_all add: Let_def train_step_state)

lemma train_loop_lr:
  "lr st = base_lr st * lr_lambda 0 (num_training_steps st) (last_epoch st) \<Longrightarrow>
   lr (fst (snd (train_loop X i bs st a)))
     = base_lr st * lr_lambda 0 (num_training_steps st) (last_epoch st + length bs)"
  by (induction bs arbitrary: i st a) (simp_all add: Let_def train_step_state)

lemma upt_shift_Cons: "[m ..< m + length (x # xs)] = m # [Suc m ..< Suc m + length xs]"
proof -
  have "m < m + length (x # xs)" by simp
  then have "[m ..< m + length (x # xs)] = m # [Suc m ..< m + length (x # xs)]"
    by (rule upt_conv_Cons)
  then show ?thesis by simp
qed

lemma train_loop_rates:
  "lr st = base_lr st * lr_lambda 0 (num_training_steps st) (last_epoch st) \<Longrightarrow>
   optimizer_rates (concat (fst (train_loop X i bs st a)))
     = map (\<lambda>k. base_lr st * lr_lambda 0 (num_training_steps st) k)
         [last_epoch st ..< last_epoch st + length bs]"
proof (induction bs arbitrary: i st a)
  case Nil
  then show ?case by simp
next
  case (Cons b bs)
  let ?st = "fst (snd (train_step X (i + 1) b st))"
  have inv: "lr ?st = base_lr ?st * lr_lambda 0 (num_training_steps ?st) (last_epoch ?st)"
    by (simp add: train_step_state)
  have "[last_epoch st ..< last_epoch st + length (b # bs)]
          = last_epoch st # [Suc (last_epoch st) ..< Suc (last_epoch st) + length bs]"
    by (rule upt_shift_Cons)
  then show ?case
    using Cons.IH [OF inv] Cons.prems
    by (simp add: Let_def optimizer_rates_append optimizer_rates_train_step train_step_state)
qed

lemma val_phase_state:
  "params (fst (snd (val_phase X r e vld st))) = params st"
  "grads (fst (snd (val_phase X r e vld st))) = grads st"
  "opt_state (fst (snd (val_phase X r e vld st))) = opt_state st"
  "lr (fst (snd (val_phase X r e vld st))) = lr st"
  "base_lr (fst (snd (val_phase X r e vld st))) = base_lr st"
  "num_training_steps (fst (snd (val_phase X r e vld st))) = num_training_steps st"
  "last_epoch (fst (snd (val_phase X r e vld st))) = last_epoch st"
  "grad_enabled (fst (snd (val_phase X r e vld st))) = grad_enabled st"
  "training (fst (snd (val_phase X r e vld st))) = False"
  by (simp_all add: val_phase_def Let_def split: sum.splits)

lemma train_phase_parts:
  "fst (snd (train_phase X r e tld st)) = fst (snd (train_segments X r e tld st))"
  "optimizer_rates (fst (train_phase X r e tld st))
     = optimizer_rates (concat (fst (train_segments X r e tld st)))"
  by (simp_all add: train_phase_def Let_def optimizer_rates_append split: sum.splits)

lemma train_phase_state:
  assumes "0 < ld_batch_size tld"
  shows "last_epoch (fst (snd (train_phase X r e tld st))) = last_epoch st + len_loader tld"
    and "base_lr (fst (snd (train_phase X r e tld st))) = base_lr st"
    and "num_training_steps (fst (snd (train_phase X r e tld st))) = num_training_steps st"
  using train_loop_state [of X "- 1" "iter_loader (r (2 * e)) tld" "st\<lparr>training := True\<rparr>"
      "PyInt 0"]
  by (simp_all add: train_phase_parts train_segments_def length_iter_loader [OF assms])

lemma train_phase_lr:
  assumes "0 < ld_batch_size tld"
    and "lr st = scheduled_rate (base_lr st) (num_training_steps st) (last_epoch st)"
  shows "lr (fst (snd (train_phase X r e tld st)))
     = scheduled_rate (base_lr st) (num_training_steps st) (last_epoch st + len_loader tld)"
  using train_loop_lr [of "st\<lparr>training := True\<rparr>" X "- 1" "iter_loader (r (2 * e)) tld"
      "PyInt 0"]
    assms(2)
  by (simp add: train_phase_parts train_segments_def length_iter_loader [OF assms(1)]
      scheduled_rate_def)

lemma train_phase_rates:
  assumes "0 < ld_batch_size tld"
    and "lr st = scheduled_rate (base_lr st) (num_training_steps st) (last_epoch st)"
  shows "optimizer_rates (fst (train_phase X r e tld st))
     = map (scheduled_rate (base_lr st) (num_training_steps st))
         [last_epoch st ..< last_epoch st + len_loader tld]"
  using train_loop_rates [of "st\<lparr>training := True\<rparr>" X "- 1" "iter_loader (r (2 * e)) tld"
      "PyInt 0"]
    assms(2)
  by (simp add: train_phase_parts train_segments_def length_iter_loader [OF assms(1)]
      scheduled_rate_def)

lemma train_epoch_complete:
  assumes "0 < len_loader tld" and "0 < len_loader vld"
  shows "snd (snd (train_epoch X r tld vld e st)) = None"
    and "filter is_checkpoint (fst (train_epoch X r tld vld e st))
           = save_checkpoint e (fst (snd (train_epoch X r tld vld e st)))"
    and "made_dirs (fst (train_epoch X r tld vld e st)) = [(checkpoint_dir e, True)]"
    and "optimizer_rates (fst (train_epoch X r tld vld e st))
           = optimizer_rates (fst (train_phase X r e tld st))"
    and "fst (snd (train_epoch X r tld vld e st))
           = fst (snd (val_phase X r e vld (fst (snd (train_phase X r e tld st)))))"
  using assms
  by (simp_all add: train_epoch_error train_epoch_events train_epoch_state
      train_phase_no_checkpoint val_phase_no_checkpoint made_dirs_append made_dirs_none
      optimizer_rates_append optimizer_rates_val_phase optimizer_rates_checkpoint)
     (simp_all add: save_checkpoint_def Let_def)

lemma train_epoch_schedule:
  assumes "0 < len_loader tld" and "0 < len_loader vld"
    and "lr st = scheduled_rate (base_lr st) (num_training_steps st) (last_epoch st)"
  shows "last_epoch (fst (snd (train_epoch X r tld vld e st))) = last_epoch st + len_loader tld"
    and "base_lr (fst (snd (train_epoch X r tld vld e st))) = base_lr st"
    and "num_training_steps (fst (snd (train_epoch X r tld vld e st))) = num_training_steps st"
    and "lr (fst (snd (train_epoch X r tld vld e st)))
           = scheduled_rate (base_lr st) (num_training_steps st)
               (last_epoch st + len_loader tld)"
    and "optimizer_rates (fst (train_epoch X r tld vld e st))
           = map (scheduled_rate (base_lr st) (num_training_steps st))
               [last_epoch st ..< last_epoch st + len_loader tld]"
proof -
  have b: "0 < ld_batch_size tld" using assms(1) by (rule len_loader_pos)
  show "last_epoch (fst (snd (train_epoch X r tld vld e st))) = last_epoch st + len_loader tld"
    and "base_lr (fst (snd (train_epoch X r tld vld e st))) = base_lr st"
    and "num_training_steps (fst (snd (train_epoch X r tld vld e st))) = num_training_steps st"
    by (simp_all add: train_epoch_complete(5) [OF assms(1,2)] val_phase_state
        train_phase_state [OF b])
  show "lr (fst (snd (train_epoch X r tld vld e st)))
           = scheduled_rate (base_lr st) (num_training_steps st)
               (last_epoch st + len_loader tld)"
    by (simp add: train_epoch_complete(5) [OF assms(1,2)] val_phase_state
        train_phase_lr [OF b assms(3)])
  show "optimizer_rates (fst (train_epoch X r tld vld e st))
           = map (scheduled_rate (base_lr st) (num_training_steps st))
               [last_epoch st ..< last_epoch st + len_loader tld]"
    by (simp add: train_epoch_complete(4) [OF assms(1,2)] train_phase_rates [OF b assms(3)])
qed

lemma run_epochs_complete:
  assumes "0 < len_loader tld" and "0 < len_loader vld"
    and "lr st = scheduled_rate (base_lr st) (num_training_steps st) (last_epoch st)"
  shows "snd (snd (run_epochs X r tld vld es st)) = None
    \<and> made_dirs (fst (run_epochs X r tld vld es st)) = map (\<lambda>e. (checkpoint_dir e, True)) es
    \<and> optimizer_rates (fst (run_epochs X r tld vld es st))
        = map (scheduled_rate (base_lr st) (num_training_steps st))
            [last_epoch st ..< last_epoch st + length es * len_loader tld]
    \<and> last_epoch (fst (snd (run_epochs X r tld vld es st)))
        = last_epoch st + length es * len_loader tld
    \<and> base_lr (fst (snd (run_epochs X r tld vld es st))) = base_lr st
    \<and> num_training_steps (fst (snd (run_epochs X r tld vld es st))) = num_training_steps st
    \<and> lr (fst (snd (run_epochs X r tld vld es st)))
        = scheduled_rate (base_lr st) (num_training_steps st)
            (last_epoch st + length es * len_loader tld)"
  using assms(3)
proof (induction es arbitrary: st)
  case Nil
  then show ?case by simp
next
  case (Cons e es)
  let ?st = "fst (snd (train_epoch X r tld vld e st))"
  note ep = train_epoch_schedule [OF assms(1,2) Cons.prems, of X r e]
  have inv: "lr ?st = scheduled_rate (base_lr ?st) (num_training_steps ?st) (last_epoch ?st)"
    by (simp add: ep)
  have split: "[last_epoch st ..< last_epoch st + (len_loader tld + length es * len_loader tld)]
      = [last_epoch st ..< last_epoch st + len_loader tld]
        @ [last_epoch st + len_loader tld
            ..< last_epoch st + len_loader tld + length es * len_loader tld]"
    by (metis add.assoc le_add1 upt_add_eq_append)
  show ?case
    using Cons.IH [OF inv] split
    by (simp add: Let_def train_epoch_complete(1,3) [OF assms(1,2)] ep made_dirs_append
        optimizer_rates_append add.assoc)
qed

lemma length_iter_loader_any: "length (iter_loader r ld) = len_loader ld"
proof (cases "ld_batch_size ld = 0")
  case True
  then show ?thesis by (simp add: iter_loader_def len_loader_def chunks.simps)
next
  case False
  then show ?thesis by (simp add: length_iter_loader)
qed

lemma scheduled_rate_linear:
  assumes "0 < T" and "k \<le> T"
  shows "scheduled_rate lr0 T k = lr0 * (real T - real k) / real T"
proof -
  have "real_of_int (int T - int k) = real T - real k" by simp
  moreover have "real_of_int (max 1 (int T - int 0)) = real T" using assms(1) by simp
  moreover have "0 \<le> (real T - real k) / real T" using assms by simp
  ultimately show ?thesis
    by (simp add: scheduled_rate_def lr_lambda_def max_def)
qed

lemma scheduled_rate_decreasing:
  assumes "0 < lr0" and "j < k" and "k \<le> T"
  shows "scheduled_rate lr0 T k < scheduled_rate lr0 T j"
proof -
  have T: "0 < T" using assms by simp
  have "real T - real k < real T - real j" using assms by simp
  then have "(real T - real k) / real T < (real T - real j) / real T"
    using T by (simp add: divide_strict_right_mono)
  then have "lr0 * ((real T - real k) / real T) < lr0 * ((real T - real j) / real T)"
    using assms(1) by (rule mult_strict_left_mono)
  then show ?thesis
    using assms T by (simp add: scheduled_rate_linear)
qed

lemma init_state_schedule:
  "lr (init_state X p m lr0 T) = scheduled_rate lr0 T 0"
  "base_lr (init_state X p m lr0 T) = lr0"
  "num_training_steps (init_state X p m lr0 T) = T"
  "last_epoch (init_state X p m lr0 T) = 0"
  by (simp_all add: init_state_def scheduled_rate_def)

lemma train_model_complete:
  assumes "0 < len_loader tld" and "0 < len_loader vld"
  shows "snd (snd (train_model X r tld vld p m epochs lr0)) = None"
    and "made_dirs (fst (train_model X r tld vld p m epochs lr0))
           = map (\<lambda>e. (checkpoint_dir e, True)) [0..<epochs]"
    and "optimizer_rates (fst (train_model X r tld vld p m epochs lr0))
           = map (scheduled_rate lr0 (epochs * len_loader tld)) [0..<epochs * len_loader tld]"
    and "last_epoch (fst (snd (train_model X r tld vld p m epochs lr0)))
           = epochs * len_loader tld"
    and "lr (fst (snd (train_model X r tld vld p m epochs lr0)))
           = scheduled_rate lr0 (epochs * len_loader tld) (epochs * len_loader tld)"
proof -
  let ?st = "init_state X p m lr0 (epochs * len_loader tld)"
  have inv: "lr ?st = scheduled_rate (base_lr ?st) (num_training_steps ?st) (last_epoch ?st)"
    by (simp add: init_state_schedule)
  note run = run_epochs_complete [OF assms inv, of X r "[0..<epochs]"]
  show "snd (snd (train_model X r tld vld p m epochs lr0)) = None"
    and "made_dirs (fst (train_model X r tld vld p m epochs lr0))
           = map (\<lambda>e. (checkpoint_dir e, True)) [0..<epochs]"
    and "optimizer_rates (fst (train_model X r tld vld p m epochs lr0))
           = map (scheduled_rate lr0 (epochs * len_loader tld)) [0..<epochs * len_loader tld]"
    and "last_epoch (fst (snd (train_model X r tld vld p m epochs lr0)))
           = epochs * len_loader tld"
    and "lr (fst (snd (train_model X r tld vld p m epochs lr0)))
           = scheduled_rate lr0 (epochs * len_loader tld) (epochs * len_loader tld)"
    using run by (simp_all add: train_model_def Let_def init_state_schedule)
qed

lemma train_model_rates_prefix:
  fixes X :: "('a, 'b, 'd, 'e, 'f, 'l) ext"
  shows "optimizer_rates (fst (train_model X r tld vld p m epochs lr0))
     = map (scheduled_rate lr0 (epochs * len_loader tld))
         [0..<last_epoch (fst (snd (train_model X r tld vld p m epochs lr0)))]
   \<and> last_epoch (fst (snd (train_model X r tld vld p m epochs lr0))) \<le> epochs * len_loader tld
   \<and> lr (fst (snd (train_model X r tld vld p m epochs lr0)))
       = scheduled_rate lr0 (epochs * len_loader tld)
           (last_epoch (fst (snd (train_model X r tld vld p m epochs lr0))))"
proof -
  let ?T = "epochs * len_loader tld"
  let ?st = "init_state X p m lr0 ?T"
  have inv: "lr ?st = scheduled_rate (base_lr ?st) (num_training_steps ?st) (last_epoch ?st)"
    by (simp add: init_state_schedule)
  consider (none) "epochs = 0" | (full) "0 < len_loader tld" "0 < len_loader vld"
    | (notrain) "0 < epochs" "len_loader tld = 0"
    | (noval) "0 < epochs" "0 < len_loader tld" "len_loader vld = 0"
    by fastforce
  then show ?thesis
  proof cases
    case none
    then show ?thesis by (simp add: train_model_def init_state_schedule)
  next
    case full
    then show ?thesis by (simp add: train_model_complete)
  next
    case notrain
    have tm: "train_model X r tld vld p m epochs lr0 = train_epoch X r tld vld 0 ?st"
      using notrain by (intro train_model_abort) simp_all
    have it: "iter_loader (r (2 * 0)) tld = []"
      using length_iter_loader_any [of "r (2 * 0)" tld] notrain(2) by simp
    have tp: "train_phase X r 0 tld s = ([ModelTrain], s\<lparr>training := True\<rparr>,
        Some ZeroDivisionError)" for s :: "('d, 'e, 'f) tstate"
      using it notrain(2) by (simp add: train_phase_def Let_def train_segments_def py_div_def)
    show ?thesis
      unfolding tm
      by (simp add: train_epoch_events train_epoch_state notrain(2) tp init_state_schedule)
  next
    case noval
    have tm: "train_model X r tld vld p m epochs lr0 = train_epoch X r tld vld 0 ?st"
      using noval by (intro train_model_abort) simp_all
    have b: "0 < ld_batch_size tld" using noval(2) by (rule len_loader_pos)
    have le: "len_loader tld \<le> epochs * len_loader tld" using noval(1) by simp
    show ?thesis
      unfolding tm using noval le
      by (simp add: train_epoch_events train_epoch_state optimizer_rates_append
          optimizer_rates_val_phase val_phase_state train_phase_state [OF b]
          train_phase_lr [OF b inv] train_phase_rates [OF b inv] init_state_schedule)
  qed
qed

text \<open>
  C4. With a positive initial rate and a budget of \<open>epochs * len(train_loader)\<close> > 0
  steps and no warmup: the optimizer starts at the configured rate; after \<open>k\<close>
  scheduler steps the rate is the configured rate times \<open>(budget - k) / budget\<close>
  (linear); it is strictly decreasing in \<open>k\<close> up to the budget; the first step already
  lowers it (no plateau); after \<open>budget\<close> steps it is exactly zero. In a run of
  \<open>train_model\<close> the scheduler is stepped once per training batch: the \<open>k\<close>-th
  optimizer step of the run uses the rate after \<open>k\<close> scheduler steps, and the rate in
  the optimizer at the end is the rate after as many steps as batches were trained.
  When the validation loader is not empty the run completes: the scheduler has taken
  \<open>budget\<close> steps, the rate set by the scheduler step of the final training batch is
  exactly zero, and the optimizer step of that batch ran at the configured rate divided
  by the budget.
\<close>

theorem linear_schedule_reaches_zero:
  assumes "0 < lr0" and "0 < epochs" and "0 < len_loader train_loader"
  shows
   "lr (init_state X p m lr0 (epochs * len_loader train_loader)) = lr0
    \<and> (\<forall>k \<le> epochs * len_loader train_loader.
          scheduled_rate lr0 (epochs * len_loader train_loader) k
            = lr0 * (real (epochs * len_loader train_loader) - real k)
                / real (epochs * len_loader train_loader))
    \<and> (\<forall>j k. j < k \<and> k \<le> epochs * len_loader train_loader \<longrightarrow>
          scheduled_rate lr0 (epochs * len_loader train_loader) k
            < scheduled_rate lr0 (epochs * len_loader train_loader) j)
    \<and> scheduled_rate lr0 (epochs * len_loader train_loader) 0 = lr0
    \<and> scheduled_rate lr0 (epochs * len_loader train_loader) 1 < lr0
    \<and> scheduled_rate lr0 (epochs * len_loader train_loader)
          (epochs * len_loader train_loader) = 0
    \<and> optimizer_rates (fst (train_model X r train_loader val_loader p m epochs lr0))
        = map (scheduled_rate lr0 (epochs * len_loader train_loader))
            [0..<last_epoch (fst (snd (train_model X r train_loader val_loader p m epochs lr0)))]
    \<and> last_epoch (fst (snd (train_model X r train_loader val_loader p m epochs lr0)))
        \<le> epochs * len_loader train_loader
    \<and> lr (fst (snd (train_model X r train_loader val_loader p m epochs lr0)))
        = scheduled_rate lr0 (epochs * len_loader train_loader)
            (last_epoch (fst (snd (train_model X r train_loader val_loader p m epochs lr0))))
    \<and> (0 < len_loader val_loader \<longrightarrow>
          snd (snd (train_model X r train_loader val_loader p m epochs lr0)) = None
          \<and> last_epoch (fst (snd (train_model X r train_loader val_loader p m epochs lr0)))
              = epochs * len_loader train_loader
          \<and> optimizer_rates (fst (train_model X r train_loader val_loader p m epochs lr0))
              = map (scheduled_rate lr0 (epochs * len_loader train_loader))
                  [0..<epochs * len_loader train_loader]
          \<and> last (optimizer_rates (fst (train_model X r train_loader val_loader p m epochs lr0)))
              = lr0 / real (epochs * len_loader train_loader)
          \<and> lr (fst (snd (train_model X r train_loader val_loader p m epochs lr0))) = 0)"
proof -
  let ?T = "epochs * len_loader train_loader"
  let ?run = "train_model X r train_loader val_loader p m epochs lr0"
  have T: "0 < ?T" using assms by simp
  have lin: "scheduled_rate lr0 ?T k = lr0 * (real ?T - real k) / real ?T" if "k \<le> ?T" for k
    using T that by (rule scheduled_rate_linear)
  have dec: "scheduled_rate lr0 ?T k < scheduled_rate lr0 ?T j" if "j < k \<and> k \<le> ?T" for j k
    using assms(1) that by (auto intro: scheduled_rate_decreasing)
  have at0: "scheduled_rate lr0 ?T 0 = lr0"
    using lin [of 0] T by simp
  have at1: "scheduled_rate lr0 ?T 1 < lr0"
    using dec [of 0 1] T at0 by simp
  have atT: "scheduled_rate lr0 ?T ?T = 0"
    using lin [of ?T] by simp
  have init: "lr (init_state X p m lr0 ?T) = lr0"
    using at0 by (simp add: init_state_schedule)
  note pre = train_model_rates_prefix [of X r train_loader val_loader p m epochs lr0]
  have full: "snd (snd ?run) = None \<and> last_epoch (fst (snd ?run)) = ?T
      \<and> optimizer_rates (fst ?run) = map (scheduled_rate lr0 ?T) [0..<?T]
      \<and> last (optimizer_rates (fst ?run)) = lr0 / real ?T
      \<and> lr (fst (snd ?run)) = 0"
    if v: "0 < len_loader val_loader"
  proof -
    note c = train_model_complete [OF assms(3) v, of X r p m epochs lr0]
    have ne: "[0..<?T] \<noteq> []" using T by simp
    have "last (map (scheduled_rate lr0 ?T) [0..<?T]) = scheduled_rate lr0 ?T (?T - 1)"
      using ne T by (simp add: last_map)
    also have "\<dots> = lr0 * (real ?T - real (?T - 1)) / real ?T"
      by (rule lin) simp
    also have "\<dots> = lr0 / real ?T"
      using T by (simp add: of_nat_diff)
    finally have "last (optimizer_rates (fst ?run)) = lr0 / real ?T"
      by (simp add: c(3))
    then show ?thesis by (simp add: c atT)
  qed
  show ?thesis
    using init lin dec at0 at1 atT pre full by blast
qed

theorem linear_schedule_reaches_zero_witness:
  "optimizer_rates (fst (train_model scripted to_back demo_train_loader demo_val_loader 0 False 2
                          (1 / 10 ^ 6)))
     = [1 / 1000000, 1 / 1200000, 1 / 1500000, 1 / 2000000, 1 / 3000000, 1 / 6000000]
   \<and> lr (fst (snd (train_model scripted to_back demo_train_loader demo_val_loader 0 False 2
                     (1 / 10 ^ 6)))) = 0
   \<and> last_epoch (fst (snd (train_model scripted to_back demo_train_loader demo_val_loader 0
                             False 2 (1 / 10 ^ 6)))) = 6"
proof -
  have h: "(0::real) < 1 / 10 ^ 6" "(0::nat) < 2" "0 < len_loader demo_train_loader"
    by (simp_all add: demo_lens)
  have v: "0 < len_loader demo_val_loader" by (simp add: demo_lens)
  have six: "[0..<6] = [0, 1, 2, 3, 4, 5]" by (simp add: upt_rec)
  let ?run = "train_model scripted to_back demo_train_loader demo_val_loader 0 False 2
                (1 / 10 ^ 6)"
  note t = linear_schedule_reaches_zero [OF h, of scripted 0 False to_back demo_val_loader]
  from t v have a: "optimizer_rates (fst ?run)
      = map (scheduled_rate (1 / 10 ^ 6) (2 * len_loader demo_train_loader))
          [0..<2 * len_loader demo_train_loader]"
    by blast
  from t v have b: "lr (fst (snd ?run)) = 0"
    by blast
  from t v have c: "last_epoch (fst (snd ?run)) = 2 * len_loader demo_train_loader"
    by blast
  show ?thesis
    unfolding a b c by (simp add: demo_lens six scheduled_rate_def lr_lambda_def)
qed

lemma checkpoint_dir_first: "checkpoint_dir 0 = ''./model_checkpoints/epoch_1''"
  by (simp add: checkpoint_dir_def str_nat.simps digit_char_def)

lemma demo_one_len: "len_loader demo_one_loader = 1"
  by (simp add: len_loader_def demo_one_loader_def)

lemma train_model_noval_steps:
  assumes "0 < epochs" and "0 < len_loader tld" and "len_loader vld = 0"
  shows "last_epoch (fst (snd (train_model X r tld vld p m epochs lr0))) = len_loader tld"
proof -
  have tm: "train_model X r tld vld p m epochs lr0 =
      train_epoch X r tld vld 0 (init_state X p m lr0 (epochs * len_loader tld))"
    using assms by (intro train_model_abort) simp_all
  have b: "0 < ld_batch_size tld" using assms(2) by (rule len_loader_pos)
  show ?thesis
    unfolding tm using assms(2)
    by (simp add: train_epoch_state val_phase_state train_phase_state [OF b]
        init_state_schedule)
qed

text \<open>
  One epoch over a training loader of one batch with an empty validation loader: the
  optimizer steps once, the run stops with \<open>ZeroDivisionError\<close>, and no directory is
  made. So the scenario of C6 needs a validation loader that is not empty.
\<close>

theorem one_batch_run_without_checkpoint:
  "len_loader demo_one_loader = 1
   \<and> optimizer_rates (fst (train_model scripted to_back demo_one_loader demo_empty_loader 0
                            False 1 (1 / 10 ^ 6))) = [1 / 10 ^ 6]
   \<and> made_dirs (fst (train_model scripted to_back demo_one_loader demo_empty_loader 0
                       False 1 (1 / 10 ^ 6))) = []
   \<and> snd (snd (train_model scripted to_back demo_one_loader demo_empty_loader 0
                  False 1 (1 / 10 ^ 6))) = Some ZeroDivisionError"
proof -
  let ?run = "train_model scripted to_back demo_one_loader demo_empty_loader 0 False 1
                (1 / 10 ^ 6)"
  have e: "ld_dataset demo_empty_loader = []" by (simp add: demo_empty_loader_def)
  have l0: "len_loader demo_empty_loader = 0" using e by (simp add: empty_loader)
  note a = train_model_empty_val [OF _ e, of 1 scripted to_back demo_one_loader 0 False
      "1 / 10 ^ 6"]
  have err: "snd (snd ?run) = Some ZeroDivisionError"
    and nock: "filter is_checkpoint (fst ?run) = []"
    using a by simp_all
  have steps: "last_epoch (fst (snd ?run)) = 1"
    using train_model_noval_steps [of 1 demo_one_loader demo_empty_loader scripted to_back 0
        False "1 / 10 ^ 6"] l0
    by (simp add: demo_one_len)
  have "optimizer_rates (fst ?run)
      = map (scheduled_rate (1 / 10 ^ 6) (1 * len_loader demo_one_loader)) [0..<1]"
    using train_model_rates_prefix [of scripted to_back demo_one_loader demo_empty_loader 0
        False 1 "1 / 10 ^ 6"] steps
    by simp
  then have rates: "optimizer_rates (fst ?run) = [1 / 10 ^ 6]"
    by (simp add: demo_one_len scheduled_rate_def lr_lambda_def)
  show ?thesis
    using err rates made_dirs_none [OF nock] demo_one_len by simp
qed

text \<open>
  C6 (amended). An epoch that completes writes exactly the checkpoint of its number: one
  call of \<open>makedirs\<close> with \<open>exist_ok\<close> on \<open>./model_checkpoints/epoch_{e+1}\<close>, then the
  model parameters and the processor saved into that directory, and nothing else. When
  both loaders are non-empty a run of \<open>epochs\<close> epochs completes, makes the directories
  of the epochs \<open>1 .. epochs\<close> in order, and takes \<open>epochs * len(train_loader)\<close>
  optimizer steps. In particular one epoch over a training loader of one batch, with a
  non-empty validation loader, takes exactly one optimizer step and makes exactly the
  directory of epoch 1.
\<close>

theorem checkpoint_per_completed_epoch:
  "(snd (snd (train_epoch X r train_loader val_loader e st)) = None \<longrightarrow>
      filter is_checkpoint (fst (train_epoch X r train_loader val_loader e st))
        = [MakeDirs (checkpoint_dir e) True,
           SaveModel (checkpoint_dir e)
             (params (fst (snd (train_epoch X r train_loader val_loader e st)))),
           SaveProcessor (checkpoint_dir e)])
   \<and> checkpoint_dir e = ''./model_checkpoints/epoch_'' @ str_nat (e + 1)
   \<and> checkpoint_dir 0 = ''./model_checkpoints/epoch_1''
   \<and> (0 < len_loader train_loader \<and> 0 < len_loader val_loader \<longrightarrow>
        snd (snd (train_model X r train_loader val_loader p m epochs lr0)) = None
        \<and> made_dirs (fst (train_model X r train_loader val_loader p m epochs lr0))
            = map (\<lambda>e. (checkpoint_dir e, True)) [0..<epochs]
        \<and> length (optimizer_rates (fst (train_model X r train_loader val_loader p m epochs lr0)))
            = epochs * len_loader train_loader)
   \<and> (len_loader train_loader = 1 \<and> 0 < len_loader val_loader \<longrightarrow>
        snd (snd (train_model X r train_loader val_loader p m 1 lr0)) = None
        \<and> length (optimizer_rates (fst (train_model X r train_loader val_loader p m 1 lr0))) = 1
        \<and> made_dirs (fst (train_model X r train_loader val_loader p m 1 lr0))
            = [(''./model_checkpoints/epoch_1'', True)])"
proof -
  have A: "filter is_checkpoint (fst (train_epoch X r train_loader val_loader e st))
        = [MakeDirs (checkpoint_dir e) True,
           SaveModel (checkpoint_dir e)
             (params (fst (snd (train_epoch X r train_loader val_loader e st)))),
           SaveProcessor (checkpoint_dir e)]"
    if "snd (snd (train_epoch X r train_loader val_loader e st)) = None"
  proof -
    from that have "0 < len_loader train_loader" "0 < len_loader val_loader"
      by (simp_all add: train_epoch_error split: if_splits)
    then show ?thesis
      by (simp add: train_epoch_complete(2) save_checkpoint_def Let_def)
  qed
  have B: "snd (snd (train_model X r train_loader val_loader p m n lr0)) = None
        \<and> made_dirs (fst (train_model X r train_loader val_loader p m n lr0))
            = map (\<lambda>e. (checkpoint_dir e, True)) [0..<n]
        \<and> length (optimizer_rates (fst (train_model X r train_loader val_loader p m n lr0)))
            = n * len_loader train_loader"
    if "0 < len_loader train_loader \<and> 0 < len_loader val_loader" for n
    using that by (simp add: train_model_complete)
  have C: "snd (snd (train_model X r train_loader val_loader p m 1 lr0)) = None
        \<and> length (optimizer_rates (fst (train_model X r train_loader val_loader p m 1 lr0))) = 1
        \<and> made_dirs (fst (train_model X r train_loader val_loader p m 1 lr0))
            = [(''./model_checkpoints/epoch_1'', True)]"
    if "len_loader train_loader = 1 \<and> 0 < len_loader val_loader"
    using that B [of 1] by (simp add: checkpoint_dir_first)
  show ?thesis
    using A B [of epochs] C checkpoint_dir_first by (simp add: checkpoint_dir_def)
qed

theorem checkpoint_per_completed_epoch_witness:
  "made_dirs (fst (train_model scripted to_back demo_one_loader demo_val_loader 0 False 1
                     (1 / 10 ^ 6))) = [(''./model_checkpoints/epoch_1'', True)]
   \<and> length (optimizer_rates (fst (train_model scripted to_back demo_one_loader demo_val_loader 0
                                     False 1 (1 / 10 ^ 6)))) = 1
   \<and> made_dirs (fst (train_model scripted to_back demo_train_loader demo_val_loader 0 False 2
                     (1 / 10 ^ 6)))
       = [(''./model_checkpoints/epoch_1'', True), (''./model_checkpoints/epoch_2'', True)]
   \<and> filter is_checkpoint (fst (train_epoch scripted to_back demo_train_loader demo_val_loader
                                  1 demo_state))
       = [MakeDirs ''./model_checkpoints/epoch_2'' True,
          SaveModel ''./model_checkpoints/epoch_2''
            (params (fst (snd (train_epoch scripted to_back demo_train_loader demo_val_loader
                                 1 demo_state)))),
          SaveProcessor ''./model_checkpoints/epoch_2'']"
proof -
  let ?one = "train_model scripted to_back demo_one_loader demo_val_loader 0 False 1
                (1 / 10 ^ 6)"
  let ?two = "train_model scripted to_back demo_train_loader demo_val_loader 0 False 2
                (1 / 10 ^ 6)"
  let ?ep = "train_epoch scripted to_back demo_train_loader demo_val_loader 1 demo_state"
  note one = checkpoint_per_completed_epoch [where X = scripted and r = to_back
      and train_loader = demo_one_loader and val_loader = demo_val_loader and e = 1
      and st = demo_state and p = 0 and m = False and epochs = 1 and ?lr0.0 = "1 / 10 ^ 6"]
  note two = checkpoint_per_completed_epoch [where X = scripted and r = to_back
      and train_loader = demo_train_loader and val_loader = demo_val_loader and e = 1
      and st = demo_state and p = 0 and m = False and epochs = 2 and ?lr0.0 = "1 / 10 ^ 6"]
  have lens: "len_loader demo_one_loader = 1 \<and> 0 < len_loader demo_val_loader"
    "0 < len_loader demo_train_loader \<and> 0 < len_loader demo_val_loader"
    by (simp_all add: demo_lens demo_one_len)
  have ok: "snd (snd ?ep) = None"
    by (simp add: train_epoch_error demo_lens)
  have d2: "checkpoint_dir 1 = ''./model_checkpoints/epoch_2''"
    by (simp add: checkpoint_dir_def str_nat.simps digit_char_def)
  have up: "[0..<2] = [0, 1]" by (simp add: upt_rec)
  from one lens(1) have w1: "made_dirs (fst ?one) = [(''./model_checkpoints/epoch_1'', True)]"
    and w2: "length (optimizer_rates (fst ?one)) = 1"
    by blast+
  from two lens(2) have "made_dirs (fst ?two) = map (\<lambda>e. (checkpoint_dir e, True)) [0..<2]"
    by blast
  then have w3: "made_dirs (fst ?two)
      = [(''./model_checkpoints/epoch_1'', True), (''./model_checkpoints/epoch_2'', True)]"
    unfolding up using d2 by (simp add: checkpoint_dir_first)
  from two ok have "filter is_checkpoint (fst ?ep)
      = [MakeDirs (checkpoint_dir 1) True, SaveModel (checkpoint_dir 1) (params (fst (snd ?ep))),
         SaveProcessor (checkpoint_dir 1)]"
    by blast
  then have w4: "filter is_checkpoint (fst ?ep)
      = [MakeDirs ''./model_checkpoints/epoch_2'' True,
         SaveModel ''./model_checkpoints/epoch_2'' (params (fst (snd ?ep))),
         SaveProcessor ''./model_checkpoints/epoch_2'']"
    unfolding d2 .
  show ?thesis
    using w1 w2 w3 w4 by blast
qed

section \<open>The validation phase\<close>

lemma val_loop_events:
  "fst (val_loop X bs st a) = concat (map (\<lambda>b. fst (val_step X b st)) bs)"
  by (induction bs arbitrary: a) (simp_all add: Let_def)

lemma val_loop_sum:
  "py_float X (snd (val_loop X bs st a))
     = foldl (float_add X) (py_float X a) (map (\<lambda>b. snd (val_step X b st)) bs)"
  by (induction bs arbitrary: a) (simp_all add: Let_def py_float_add)

lemma val_step_explicit:
  "val_step X b st =
     ([Tokenizer (snd b),
       Forward (training st) (grad_enabled st) (input_ids (fst b)) (pixel_values (fst b))
         (tokenizer_padded X (snd b)),
       LossItem (forward_loss X (training st) (params st) (input_ids (fst b))
                   (pixel_values (fst b)) (tokenizer_padded X (snd b)))],
      forward_loss X (training st) (params st) (input_ids (fst b)) (pixel_values (fst b))
        (tokenizer_padded X (snd b)))"
  by (simp add: val_step_def Let_def)

lemma val_phase_explicit:
  "fst (val_phase X r e vld st) =
     [ModelEval, NoGradEnter]
     @ concat (map (\<lambda>b. [Tokenizer (snd b),
                          Forward False False (input_ids (fst b)) (pixel_values (fst b))
                            (tokenizer_padded X (snd b)),
                          LossItem (forward_loss X False (params st) (input_ids (fst b))
                                      (pixel_values (fst b)) (tokenizer_padded X (snd b)))])
                 (iter_loader (r (2 * e + 1)) vld))
     @ [NoGradExit]
     @ (if len_loader vld = 0 then []
        else [PrintAvgVal
                (float_div X
                   (foldl (float_add X) (float_of_int X 0)
                      (map (\<lambda>b. forward_loss X False (params st) (input_ids (fst b))
                                   (pixel_values (fst b)) (tokenizer_padded X (snd b)))
                         (iter_loader (r (2 * e + 1)) vld)))
                   (float_of_int X (int (len_loader vld))))])"
  using val_loop_sum [of X "iter_loader (r (2 * e + 1)) vld"
      "st\<lparr>training := False, grad_enabled := False\<rparr>" "PyInt 0"]
  by (simp add: val_phase_def Let_def py_div_def val_loop_events val_step_explicit
      py_float_def)

lemma filter_concat_map_Nil:
  "(\<And>x. filter P (f x) = []) \<Longrightarrow> filter P (concat (map f xs)) = []"
  by (induction xs) simp_all

text \<open>
  C5. The validation phase of an epoch leaves the model parameters, the gradients, the
  optimizer state, the rate and the scheduler's counters as they were; it puts the model
  in evaluation mode and leaves gradient tracking as it found it. Its trace is:
  \<open>model.eval()\<close>, one entry into the no-gradient region, then for each batch of the
  validation loader the tokenizer on the answers, the forward pass (in evaluation mode,
  gradient tracking off, labels from the tokenizer) and the read of the loss, then the one
  exit from the region, then the printed average when the loader is not empty. It holds
  no backward pass, optimizer step, scheduler step or gradient reset, no event of the
  diagnostic path, and no checkpoint event.
\<close>

theorem validation_changes_nothing:
  "params (fst (snd (val_phase X r e val_loader st))) = params st
   \<and> grads (fst (snd (val_phase X r e val_loader st))) = grads st
   \<and> opt_state (fst (snd (val_phase X r e val_loader st))) = opt_state st
   \<and> lr (fst (snd (val_phase X r e val_loader st))) = lr st
   \<and> base_lr (fst (snd (val_phase X r e val_loader st))) = base_lr st
   \<and> num_training_steps (fst (snd (val_phase X r e val_loader st))) = num_training_steps st
   \<and> last_epoch (fst (snd (val_phase X r e val_loader st))) = last_epoch st
   \<and> grad_enabled (fst (snd (val_phase X r e val_loader st))) = grad_enabled st
   \<and> training (fst (snd (val_phase X r e val_loader st))) = False
   \<and> filter is_update (fst (val_phase X r e val_loader st)) = []
   \<and> filter is_diag (fst (val_phase X r e val_loader st)) = []
   \<and> filter is_checkpoint (fst (val_phase X r e val_loader st)) = []
   \<and> filter (\<lambda>ev. ev = NoGradEnter) (fst (val_phase X r e val_loader st)) = [NoGradEnter]
   \<and> filter (\<lambda>ev. ev = NoGradExit) (fst (val_phase X r e val_loader st)) = [NoGradExit]
   \<and> fst (val_phase X r e val_loader st) =
       [ModelEval, NoGradEnter]
       @ concat (map (\<lambda>b. [Tokenizer (snd b),
                            Forward False False (input_ids (fst b)) (pixel_values (fst b))
                              (tokenizer_padded X (snd b)),
                            LossItem (forward_loss X False (params st) (input_ids (fst b))
                                        (pixel_values (fst b)) (tokenizer_padded X (snd b)))])
                   (iter_loader (r (2 * e + 1)) val_loader))
       @ [NoGradExit]
       @ (if len_loader val_loader = 0 then []
          else [PrintAvgVal
                  (float_div X
                     (foldl (float_add X) (float_of_int X 0)
                        (map (\<lambda>b. forward_loss X False (params st) (input_ids (fst b))
                                     (pixel_values (fst b)) (tokenizer_padded X (snd b)))
                           (iter_loader (r (2 * e + 1)) val_loader)))
                     (float_of_int X (int (len_loader val_loader))))])"
proof -
  have ev: "filter is_update (fst (val_phase X r e val_loader st)) = []"
    "filter is_diag (fst (val_phase X r e val_loader st)) = []"
    "filter (\<lambda>ev. ev = NoGradEnter) (fst (val_phase X r e val_loader st)) = [NoGradEnter]"
    "filter (\<lambda>ev. ev = NoGradExit) (fst (val_phase X r e val_loader st)) = [NoGradExit]"
    unfolding val_phase_explicit by (simp_all add: filter_concat_map_Nil)
  show ?thesis
    using ev val_phase_explicit [of X r e val_loader st]
    by (simp add: val_phase_state val_phase_no_checkpoint)
qed

lemma demo_val_padded:
  "tokenizer_padded scripted [''d''] = [[0, 7, 2]]"
  "tokenizer_padded scripted [''e''] = [[0, 7, 2]]"
  by (simp_all add: tokenizer_padded_def scripted_def Let_def longest_def pad_to_def)

theorem validation_changes_nothing_witness:
  "fst (val_phase scripted to_back 0 demo_val_loader demo_state) =
     [ModelEval, NoGradEnter,
      Tokenizer [''d''], Forward False False [[0, 2, 2]] 4 [[0, 7, 2]], LossItem 4,
      Tokenizer [''e''], Forward False False [[0, 2, 2]] 8 [[0, 7, 2]], LossItem 8,
      NoGradExit, PrintAvgVal 6]
   \<and> params (fst (snd (val_phase scripted to_back 0 demo_val_loader demo_state)))
       = params demo_state
   \<and> opt_state (fst (snd (val_phase scripted to_back 0 demo_val_loader demo_state)))
       = opt_state demo_state
   \<and> lr (fst (snd (val_phase scripted to_back 0 demo_val_loader demo_state))) = lr demo_state"
  using validation_changes_nothing [of scripted to_back 0 demo_val_loader demo_state]
  by (simp add: demo_val_batches demo_lens demo_val_padded) (simp add: scripted_def)

section \<open>The samples of every epoch\<close>

lemma tokenized_append: "tokenized (xs @ ys) = tokenized xs @ tokenized ys"
  by (induction xs rule: tokenized.induct) simp_all

lemma tokenized_diag: "\<forall>ev \<in> set evs. is_diag ev \<Longrightarrow> tokenized evs = []"
  by (induction evs rule: tokenized.induct) auto

lemma tokenized_diagnostics: "tokenized (diagnostics X st inp answers l) = []"
  by (rule tokenized_diag) (auto dest: diagnostics_set)

lemma tokenized_train_step: "tokenized (fst (train_step X i b st)) = [snd b]"
  by (simp add: train_step_events tokenized_append tokenized_diagnostics)

lemma tokenized_train_loop: "tokenized (concat (fst (train_loop X i bs st a))) = map snd bs"
  by (induction bs arbitrary: i st a)
     (simp_all add: Let_def tokenized_append tokenized_train_step)

lemma tokenized_train_phase:
  "tokenized (fst (train_phase X r e tld st)) = map snd (iter_loader (r (2 * e)) tld)"
  by (simp add: train_phase_def Let_def train_segments_def tokenized_append
      tokenized_train_loop split: sum.splits)

lemma tokenized_val_loop: "tokenized (fst (val_loop X bs st a)) = map snd bs"
  by (induction bs arbitrary: a) (simp_all add: Let_def tokenized_append val_step_def)

lemma tokenized_val_phase:
  "tokenized (fst (val_phase X r e vld st)) = map snd (iter_loader (r (2 * e + 1)) vld)"
  by (simp add: val_phase_def Let_def tokenized_append tokenized_val_loop split: sum.splits)

lemma answers_of_batches:
  "0 < b \<Longrightarrow> concat (map snd (map (collate_fn X) (chunks b xs))) = map (\<lambda>s. fst (snd s)) xs"
proof -
  assume b: "0 < b"
  have "concat (map snd (map (collate_fn X) (chunks b xs)))
      = concat (map (map (\<lambda>s. fst (snd s))) (chunks b xs))"
    by (simp add: collate_fn_def Let_def comp_def)
  also have "\<dots> = map (\<lambda>s. fst (snd s)) (concat (chunks b xs))"
    by (simp add: map_concat)
  finally show ?thesis using b by (simp add: concat_chunks)
qed

lemma answers_of_loader:
  assumes "0 < ld_batch_size ld" and "ld_collate ld = collate_fn X"
  shows "concat (map snd (iter_loader rs ld)) = map (\<lambda>s. fst (snd s)) (sampled rs ld)"
  unfolding iter_loader_def assms(2) using assms(1) by (rule answers_of_batches)

lemma answers_of_zip3:
  assumes "length ps = length as" and "length as = length is"
  shows "map (\<lambda>s. fst (snd s)) (zip ps (zip as is)) = as"
proof -
  have "map (\<lambda>s. fst (snd s)) (zip ps (zip as is)) = map fst (map snd (zip ps (zip as is)))"
    by (simp add: comp_def)
  also have "map snd (zip ps (zip as is)) = zip as is"
    using assms by (simp add: map_snd_zip)
  also have "map fst (zip as is) = as"
    using assms by (simp add: map_fst_zip)
  finally show ?thesis .
qed
lemma forward_passes_append:
  "forward_passes (xs @ ys) = forward_passes xs @ forward_passes ys"
  by (induction xs rule: forward_passes.induct) simp_all

lemma forward_passes_diag: "\<forall>ev \<in> set evs. is_diag ev \<Longrightarrow> forward_passes evs = []"
  by (induction evs rule: forward_passes.induct) auto

lemma forward_passes_diagnostics: "forward_passes (diagnostics X st inp answers l) = []"
  by (rule forward_passes_diag) (auto dest: diagnostics_set)

lemma forward_passes_train_step:
  "forward_passes (fst (train_step X i b st))
     = [(training st, grad_enabled st, input_ids (fst b), pixel_values (fst b),
         tokenizer_padded X (snd b))]"
  by (simp add: train_step_events forward_passes_append forward_passes_diagnostics)

lemma forward_passes_train_loop:
  "forward_passes (concat (fst (train_loop X i bs st a)))
     = map (\<lambda>b. (training st, grad_enabled st, input_ids (fst b), pixel_values (fst b),
                  tokenizer_padded X (snd b))) bs"
  by (induction bs arbitrary: i st a)
     (simp_all add: Let_def forward_passes_append forward_passes_train_step train_step_state)

lemma forward_passes_train_phase:
  "forward_passes (fst (train_phase X r e tld st))
     = map (\<lambda>b. (True, grad_enabled st, input_ids (fst b), pixel_values (fst b),
                  tokenizer_padded X (snd b))) (iter_loader (r (2 * e)) tld)"
  by (simp add: train_phase_def Let_def train_segments_def forward_passes_append
      forward_passes_train_loop split: sum.splits)

lemma forward_passes_val_loop:
  "forward_passes (fst (val_loop X bs st a))
     = map (\<lambda>b. (training st, grad_enabled st, input_ids (fst b), pixel_values (fst b),
                  tokenizer_padded X (snd b))) bs"
  by (induction bs arbitrary: a) (simp_all add: Let_def forward_passes_append val_step_def)

lemma forward_passes_val_phase:
  "forward_passes (fst (val_phase X r e vld st))
     = map (\<lambda>b. (False, False, input_ids (fst b), pixel_values (fst b),
                  tokenizer_padded X (snd b))) (iter_loader (r (2 * e + 1)) vld)"
  by (simp add: val_phase_def Let_def forward_passes_append forward_passes_val_loop
      split: sum.splits)

lemma train_phase_grad_enabled:
  "grad_enabled (fst (snd (train_phase X r e tld st))) = grad_enabled st"
  using train_loop_state [of X "- 1" "iter_loader (r (2 * e)) tld" "st\<lparr>training := True\<rparr>"
      "PyInt 0"]
  by (simp add: train_phase_parts train_segments_def)

lemma train_epoch_grad_enabled:
  "grad_enabled (fst (snd (train_epoch X r tld vld e st))) = grad_enabled st"
  by (simp add: train_epoch_state val_phase_state train_phase_grad_enabled)

text \<open>The tokenizer calls and forward passes of one epoch that runs to its end.\<close>

lemma train_epoch_trace:
  assumes "0 < len_loader tld"
  shows "tokenized (fst (train_epoch X r tld vld e st))
           = map snd (iter_loader (r (2 * e)) tld) @ map snd (iter_loader (r (2 * e + 1)) vld)"
    and "forward_passes (fst (train_epoch X r tld vld e st))
           = map (\<lambda>b. (True, grad_enabled st, input_ids (fst b), pixel_values (fst b),
                        tokenizer_padded X (snd b))) (iter_loader (r (2 * e)) tld)
             @ map (\<lambda>b. (False, False, input_ids (fst b), pixel_values (fst b),
                          tokenizer_padded X (snd b))) (iter_loader (r (2 * e + 1)) vld)"
  using assms
  by (simp_all add: train_epoch_events tokenized_append tokenized_train_phase
      tokenized_val_phase forward_passes_append forward_passes_train_phase
      forward_passes_val_phase save_checkpoint_def Let_def)

lemma run_epochs_trace:
  assumes "0 < len_loader tld" and "0 < len_loader vld"
  shows "tokenized (fst (run_epochs X r tld vld es st))
           = concat (map (\<lambda>e. map snd (iter_loader (r (2 * e)) tld)
                              @ map snd (iter_loader (r (2 * e + 1)) vld)) es)
    \<and> forward_passes (fst (run_epochs X r tld vld es st))
           = concat (map (\<lambda>e.
               map (\<lambda>b. (True, grad_enabled st, input_ids (fst b), pixel_values (fst b),
                          tokenizer_padded X (snd b))) (iter_loader (r (2 * e)) tld)
               @ map (\<lambda>b. (False, False, input_ids (fst b), pixel_values (fst b),
                            tokenizer_padded X (snd b))) (iter_loader (r (2 * e + 1)) vld)) es)"
proof (induction es arbitrary: st)
  case Nil
  then show ?case by simp
next
  case (Cons e es)
  let ?st = "fst (snd (train_epoch X r tld vld e st))"
  have ok: "snd (snd (train_epoch X r tld vld e st)) = None"
    using assms by (simp add: train_epoch_error)
  have step: "fst (run_epochs X r tld vld (e # es) st)
      = fst (train_epoch X r tld vld e st) @ fst (run_epochs X r tld vld es ?st)"
    by (simp add: Let_def ok)
  have g: "grad_enabled ?st = grad_enabled st"
    by (rule train_epoch_grad_enabled)
  show ?case
    unfolding step using Cons.IH [of ?st]
    by (simp add: tokenized_append forward_passes_append train_epoch_trace [OF assms(1)] g)
qed

lemma train_model_trace:
  assumes "0 < len_loader tld"
  shows "tokenized (fst (train_model X r tld vld p m epochs lr0))
           = concat (map (\<lambda>e. map snd (iter_loader (r (2 * e)) tld)
                              @ map snd (iter_loader (r (2 * e + 1)) vld))
               [0..<(if len_loader vld = 0 then min 1 epochs else epochs)])
    \<and> forward_passes (fst (train_model X r tld vld p m epochs lr0))
           = concat (map (\<lambda>e.
               map (\<lambda>b. (True, True, input_ids (fst b), pixel_values (fst b),
                          tokenizer_padded X (snd b))) (iter_loader (r (2 * e)) tld)
               @ map (\<lambda>b. (False, False, input_ids (fst b), pixel_values (fst b),
                            tokenizer_padded X (snd b))) (iter_loader (r (2 * e + 1)) vld))
               [0..<(if len_loader vld = 0 then min 1 epochs else epochs)])"
proof (cases "len_loader vld = 0")
  case False
  then have v: "0 < len_loader vld" by simp
  have g: "grad_enabled (init_state X p m lr0 (epochs * len_loader tld))"
    by (simp add: init_state_def)
  show ?thesis
    using run_epochs_trace [OF assms v, of X r "[0..<epochs]"
        "init_state X p m lr0 (epochs * len_loader tld)"] False g
    by (simp add: train_model_def Let_def)
next
  case True
  show ?thesis
  proof (cases "epochs = 0")
    case e0: True
    then show ?thesis by (simp add: train_model_def)
  next
    case False
    then have ep: "0 < epochs" by simp
    have tm: "train_model X r tld vld p m epochs lr0 =
        train_epoch X r tld vld 0 (init_state X p m lr0 (epochs * len_loader tld))"
      using ep True by (intro train_model_abort) simp_all
    have one: "[0..<min (Suc 0) epochs] = [0]" using ep by (simp add: min_def)
    have g: "grad_enabled (init_state X p m lr0 (epochs * len_loader tld))"
      by (simp add: init_state_def)
    show ?thesis
      unfolding tm using True g by (simp add: one train_epoch_trace [OF assms])
  qed
qed


text \<open>
  C7. For three non-empty sequences of one length the script builds its two loaders
  once, from the one split of the samples, and hands them to \<open>train_model\<close>: the training
  loader (shuffled) holds the samples before the cut, the validation loader (not
  shuffled) the samples from the cut on, and together they are the original samples.
  The trace of the run of \<open>train_model\<close> on these loaders is, epoch after epoch (the
  three epochs, or the first alone when fewer than 10 samples leave the validation
  loader empty and the run stops there): the tokenizer calls and forward passes in
  training mode on the batches of the training loader, then those in evaluation mode
  without gradients on the batches of the validation loader, and no other. In every
  epoch the batches of the training loader are the training samples, one per batch, in
  some order (the same multiset), and the batches of the validation loader are the
  validation samples, one per batch, in their original order; so are the answers
  tokenized in the two phases of any epoch.
\<close>

theorem split_fixed_across_epochs:
  assumes "length prompts = length answers" and "length answers = length images"
    and "prompts \<noteq> []"
  shows "\<exists>train_loader val_loader.
      script_loaders X prompts answers images = Inr (train_loader, val_loader)
    \<and> main X r prompts answers images p
        = Inr (train_model X r train_loader val_loader p False 3 (1 / 10 ^ 6))
    \<and> ld_dataset train_loader = fst (data_split (zip prompts (zip answers images)))
    \<and> ld_dataset val_loader = snd (data_split (zip prompts (zip answers images)))
    \<and> ld_dataset train_loader @ ld_dataset val_loader = zip prompts (zip answers images)
    \<and> ld_shuffle train_loader
    \<and> \<not> ld_shuffle val_loader
    \<and> (\<forall>e. mset (sampled (r (2 * e)) train_loader) = mset (ld_dataset train_loader))
    \<and> (\<forall>e. sampled (r (2 * e + 1)) val_loader = ld_dataset val_loader)
    \<and> (\<forall>e st. concat (tokenized (fst (train_phase X r e train_loader st)))
                 = map (\<lambda>s. fst (snd s)) (sampled (r (2 * e)) train_loader))
    \<and> (\<forall>e st. mset (concat (tokenized (fst (train_phase X r e train_loader st))))
                 = mset (fst (data_split answers)))
    \<and> (\<forall>e st. concat (tokenized (fst (val_phase X r e val_loader st)))
                 = snd (data_split answers))
    \<and> tokenized (fst (train_model X r train_loader val_loader p False 3 (1 / 10 ^ 6)))
        = concat (map (\<lambda>e. map snd (iter_loader (r (2 * e)) train_loader)
                           @ map snd (iter_loader (r (2 * e + 1)) val_loader))
            [0..<(if length prompts < 10 then 1 else 3)])
    \<and> forward_passes (fst (train_model X r train_loader val_loader p False 3 (1 / 10 ^ 6)))
        = concat (map (\<lambda>e.
            map (\<lambda>b. (True, True, input_ids (fst b), pixel_values (fst b),
                       tokenizer_padded X (snd b))) (iter_loader (r (2 * e)) train_loader)
            @ map (\<lambda>b. (False, False, input_ids (fst b), pixel_values (fst b),
                         tokenizer_padded X (snd b))) (iter_loader (r (2 * e + 1)) val_loader))
            [0..<(if length prompts < 10 then 1 else 3)])
    \<and> (\<forall>e. iter_loader (r (2 * e)) train_loader
             = map (\<lambda>s. collate_fn X [s]) (sampled (r (2 * e)) train_loader))
    \<and> (\<forall>e. iter_loader (r (2 * e + 1)) val_loader
             = map (\<lambda>s. collate_fn X [s]) (ld_dataset val_loader))
    \<and> (\<forall>e. mset (concat (map snd (iter_loader (r (2 * e)) train_loader)))
             = mset (fst (data_split answers)))
    \<and> (\<forall>e. concat (map snd (iter_loader (r (2 * e + 1)) val_loader))
             = snd (data_split answers))"
proof -
  let ?all = "zip prompts (zip answers images)"
  let ?tl = "\<lparr>ld_dataset = fst (data_split ?all), ld_batch_size = 1,
              ld_collate = collate_fn X, ld_shuffle = True\<rparr>"
  let ?vl = "\<lparr>ld_dataset = snd (data_split ?all), ld_batch_size = 1,
              ld_collate = collate_fn X, ld_shuffle = False\<rparr>"
  have sl: "script_loaders X prompts answers images = Inr (?tl, ?vl)"
    by (rule script_loaders_aligned [OF assms])
  have m: "main X r prompts answers images p
      = Inr (train_model X r ?tl ?vl p False 3 (1 / 10 ^ 6))"
    by (simp add: main_def sl)
  have cat: "ld_dataset ?tl @ ld_dataset ?vl = ?all"
    by (simp add: data_split_take_drop)
  have ms: "mset (sampled rs ?tl) = mset (ld_dataset ?tl)" for rs
    by (simp add: sampled_def mset_shuffle_list)
  have vs: "sampled rs ?vl = ld_dataset ?vl" for rs
    by (simp add: sampled_def)
  have ta: "map (\<lambda>s. fst (snd s)) (fst (data_split ?all)) = fst (data_split answers)"
    using answers_of_zip3 [OF assms(1,2)] assms(1,2)
    by (simp add: data_split_take_drop take_map [symmetric])
  have va: "map (\<lambda>s. fst (snd s)) (snd (data_split ?all)) = snd (data_split answers)"
    using answers_of_zip3 [OF assms(1,2)] assms(1,2)
    by (simp add: data_split_take_drop drop_map [symmetric])
  have tt: "concat (tokenized (fst (train_phase X r e ?tl st)))
      = map (\<lambda>s. fst (snd s)) (sampled (r (2 * e)) ?tl)" for e st
    unfolding tokenized_train_phase by (rule answers_of_loader) simp_all
  have tm: "mset (concat (tokenized (fst (train_phase X r e ?tl st))))
      = mset (fst (data_split answers))" for e st
  proof -
    have "mset (map (\<lambda>s. fst (snd s)) (sampled (r (2 * e)) ?tl))
        = image_mset (\<lambda>s. fst (snd s)) (mset (sampled (r (2 * e)) ?tl))"
      by (rule mset_map)
    also have "\<dots> = image_mset (\<lambda>s. fst (snd s)) (mset (ld_dataset ?tl))"
      by (simp only: ms)
    also have "\<dots> = mset (map (\<lambda>s. fst (snd s)) (ld_dataset ?tl))"
      by (rule mset_map [symmetric])
    also have "map (\<lambda>s. fst (snd s)) (ld_dataset ?tl) = fst (data_split answers)"
      using ta by simp
    finally show ?thesis unfolding tt .
  qed
  have tv: "concat (tokenized (fst (val_phase X r e ?vl st))) = snd (data_split answers)"
    for e st
  proof -
    have "concat (map snd (iter_loader (r (2 * e + 1)) ?vl))
        = map (\<lambda>s. fst (snd s)) (sampled (r (2 * e + 1)) ?vl)"
      by (rule answers_of_loader) simp_all
    then show ?thesis unfolding tokenized_val_phase vs using va by simp
  qed
  have sh: "ld_shuffle ?tl" "\<not> ld_shuffle ?vl"
    and ds: "ld_dataset ?tl = fst (data_split ?all)" "ld_dataset ?vl = snd (data_split ?all)"
    by simp_all
  have n: "length ?all = length prompts" using assms(1,2) by simp
  have "length (fst (data_split ?all)) = length ?all - length ?all div 10"
    and "length (snd (data_split ?all)) = length ?all div 10"
    by (simp_all add: data_split_take_drop cut_index_def del: length_zip)
  then have tlen: "len_loader ?tl = length prompts - length prompts div 10"
    and vlen: "len_loader ?vl = length prompts div 10"
    unfolding n by (simp_all add: len_loader_def)
  have "0 < length prompts" using assms(3) by simp
  then have tpos: "0 < len_loader ?tl" unfolding tlen by simp
  have "(length prompts div 10 = 0) = (length prompts < 10)"
    by presburger
  then have k: "(if len_loader ?vl = 0 then min 1 (3::nat) else 3)
      = (if length prompts < 10 then 1 else 3)"
    unfolding vlen by simp
  note run = train_model_trace [OF tpos, of X r ?vl p False 3 "1 / 10 ^ 6", unfolded k]
  have it: "iter_loader rs ?tl = map (\<lambda>s. collate_fn X [s]) (sampled rs ?tl)" for rs
    by (simp add: iter_loader_def chunks_one comp_def)
  have iv: "iter_loader rs ?vl = map (\<lambda>s. collate_fn X [s]) (ld_dataset ?vl)" for rs
    by (simp add: iter_loader_def chunks_one comp_def sampled_def)
  have bt: "mset (concat (map snd (iter_loader (r (2 * e)) ?tl))) = mset (fst (data_split answers))"
    for e
    using tm [of e undefined] unfolding tokenized_train_phase .
  have bv: "concat (map snd (iter_loader (r (2 * e + 1)) ?vl)) = snd (data_split answers)" for e
    using tv [of e undefined] unfolding tokenized_val_phase .
  from sl m ds cat sh ms vs tt tm tv run it iv bt bv show ?thesis
    by blast
qed

theorem split_fixed_across_epochs_witness:
  "\<exists>train_loader val_loader.
      script_loaders scripted
        [''p0'', ''p1'', ''p2'', ''p3'', ''p4'', ''p5'', ''p6'', ''p7'', ''p8'', ''p9'']
        [''a'', ''b'', ''c'', ''d'', ''e'', ''f'', ''g'', ''h'', ''i'', ''j'']
        [0, 1, 2, 3, 4, 5, 6, 7, 8, 9] = Inr (train_loader, val_loader)
    \<and> ld_dataset val_loader = [(''p9'', ''j'', 9)]
    \<and> length (ld_dataset train_loader) = 9
    \<and> mset (concat (tokenized (fst (train_phase scripted to_back 1 train_loader demo_state))))
        = mset [''a'', ''b'', ''c'', ''d'', ''e'', ''f'', ''g'', ''h'', ''i'']
    \<and> concat (tokenized (fst (val_phase scripted to_back 1 val_loader demo_state))) = [''j'']
    \<and> tokenized (fst (train_model scripted to_back train_loader val_loader 0 False 3
                         (1 / 10 ^ 6)))
        = [[''i''], [''h''], [''g''], [''f''], [''e''], [''d''], [''c''], [''b''], [''a''], [''j''],
           [''i''], [''h''], [''g''], [''f''], [''e''], [''d''], [''c''], [''b''], [''a''], [''j''],
           [''i''], [''h''], [''g''], [''f''], [''e''], [''d''], [''c''], [''b''], [''a''], [''j'']]"
proof -
  let ?P = "[''p0'', ''p1'', ''p2'', ''p3'', ''p4'', ''p5'', ''p6'', ''p7'', ''p8'', ''p9'']"
  let ?A = "[''a'', ''b'', ''c'', ''d'', ''e'', ''f'', ''g'', ''h'', ''i'', ''j'']"
  let ?I = "[0, 1, 2, 3, 4, 5, 6, 7, 8, 9 :: nat]"
  have eq: "length ?P = length ?A" "length ?A = length ?I" "?P \<noteq> []" by simp_all
  have sa: "data_split ?A = ([''a'', ''b'', ''c'', ''d'', ''e'', ''f'', ''g'', ''h'', ''i''], [''j''])"
    by (simp add: data_split_take_drop cut_index_def)
  have sz: "snd (data_split (zip ?P (zip ?A ?I))) = [(''p9'', ''j'', 9)]"
    "length (fst (data_split (zip ?P (zip ?A ?I)))) = 9"
    by (simp_all add: data_split_take_drop cut_index_def)
  from split_fixed_across_epochs [OF eq, of scripted to_back 0]
  obtain tl vl where sl: "script_loaders scripted ?P ?A ?I = Inr (tl, vl)"
    and dt: "ld_dataset tl = fst (data_split (zip ?P (zip ?A ?I)))"
    and dv: "ld_dataset vl = snd (data_split (zip ?P (zip ?A ?I)))"
    and tr: "\<forall>e st. mset (concat (tokenized (fst (train_phase scripted to_back e tl st))))
                 = mset (fst (data_split ?A))"
    and va: "\<forall>e st. concat (tokenized (fst (val_phase scripted to_back e vl st)))
                 = snd (data_split ?A)"
    and sh: "ld_shuffle tl"
    and tk: "tokenized (fst (train_model scripted to_back tl vl 0 False 3 (1 / 10 ^ 6)))
        = concat (map (\<lambda>e. map snd (iter_loader (to_back (2 * e)) tl)
                           @ map snd (iter_loader (to_back (2 * e + 1)) vl))
            [0..<(if length ?P < 10 then 1 else 3)])"
    and it: "\<forall>e. iter_loader (to_back (2 * e)) tl
             = map (\<lambda>s. collate_fn scripted [s]) (sampled (to_back (2 * e)) tl)"
    and iv: "\<forall>e. iter_loader (to_back (2 * e + 1)) vl
             = map (\<lambda>s. collate_fn scripted [s]) (ld_dataset vl)"
    by blast
  have w1: "ld_dataset vl = [(''p9'', ''j'', 9)]" unfolding dv by (rule sz(1))
  have w2: "length (ld_dataset tl) = 9" unfolding dt by (rule sz(2))
  have w3: "mset (concat (tokenized (fst (train_phase scripted to_back 1 tl demo_state))))
        = mset [''a'', ''b'', ''c'', ''d'', ''e'', ''f'', ''g'', ''h'', ''i'']"
    using tr sa by simp
  have w4: "concat (tokenized (fst (val_phase scripted to_back 1 vl demo_state))) = [''j'']"
    using va sa by simp
  have zt: "fst (data_split (zip ?P (zip ?A ?I)))
      = [(''p0'', ''a'', 0), (''p1'', ''b'', 1), (''p2'', ''c'', 2), (''p3'', ''d'', 3),
         (''p4'', ''e'', 4), (''p5'', ''f'', 5), (''p6'', ''g'', 6), (''p7'', ''h'', 7),
         (''p8'', ''i'', 8)]"
    by (simp add: data_split_take_drop cut_index_def)
  have tb: "map snd (iter_loader (to_back (2 * e)) tl)
      = [[''i''], [''h''], [''g''], [''f''], [''e''], [''d''], [''c''], [''b''], [''a'']]" for e
  proof -
    have d: "ld_dataset tl
        = [(''p0'', ''a'', 0), (''p1'', ''b'', 1), (''p2'', ''c'', 2), (''p3'', ''d'', 3),
           (''p4'', ''e'', 4), (''p5'', ''f'', 5), (''p6'', ''g'', 6), (''p7'', ''h'', 7),
           (''p8'', ''i'', 8)]"
      unfolding dt by (rule zt)
    have sm: "sampled (to_back (2 * e)) tl
        = [(''p8'', ''i'', 8), (''p7'', ''h'', 7), (''p6'', ''g'', 6), (''p5'', ''f'', 5),
           (''p4'', ''e'', 4), (''p3'', ''d'', 3), (''p2'', ''c'', 2), (''p1'', ''b'', 1),
           (''p0'', ''a'', 0)]"
      using sh by (simp add: sampled_def d to_back_def insert_at_def)
    show ?thesis
      using it [rule_format, of e] by (simp add: sm collate_fn_def)
  qed
  have vb: "map snd (iter_loader (to_back (Suc 0)) vl) = [[''j'']]"
    "map snd (iter_loader (to_back 3) vl) = [[''j'']]"
    "map snd (iter_loader (to_back 5) vl) = [[''j'']]"
    using iv [rule_format, of 0] iv [rule_format, of 1] iv [rule_format, of 2]
    by (simp_all add: w1 collate_fn_def)
  have three: "[0..<3] = [0, 1, 2]" by (simp add: upt_rec)
  have w5: "tokenized (fst (train_model scripted to_back tl vl 0 False 3 (1 / 10 ^ 6)))
        = [[''i''], [''h''], [''g''], [''f''], [''e''], [''d''], [''c''], [''b''], [''a''], [''j''],
           [''i''], [''h''], [''g''], [''f''], [''e''], [''d''], [''c''], [''b''], [''a''], [''j''],
           [''i''], [''h''], [''g''], [''f''], [''e''], [''d''], [''c''], [''b''], [''a''], [''j'']]"
    unfolding tk by (simp add: three tb vb del: upt_Suc)
  from sl w1 w2 w3 w4 w5 show ?thesis by blast
qed

section \<open>Labels\<close>

lemma forward_labels_append:
  "forward_labels (xs @ ys) = forward_labels xs @ forward_labels ys"
  by (induction xs rule: forward_labels.induct) simp_all

lemma forward_labels_diag: "\<forall>ev \<in> set evs. is_diag ev \<Longrightarrow> forward_labels evs = []"
  by (induction evs rule: forward_labels.induct) auto

lemma forward_labels_diagnostics: "forward_labels (diagnostics X st inp answers l) = []"
  by (rule forward_labels_diag) (auto dest: diagnostics_set)

lemma forward_labels_train_step:
  "forward_labels (fst (train_step X i b st)) = [tokenizer_padded X (snd b)]"
  by (simp add: train_step_events forward_labels_append forward_labels_diagnostics)

lemma forward_labels_train_loop:
  "forward_labels (concat (fst (train_loop X i bs st a)))
     = map (\<lambda>b. tokenizer_padded X (snd b)) bs"
  by (induction bs arbitrary: i st a)
     (simp_all add: Let_def forward_labels_append forward_labels_train_step)

lemma forward_labels_train_phase:
  "forward_labels (fst (train_phase X r e tld st))
     = map (\<lambda>b. tokenizer_padded X (snd b)) (iter_loader (r (2 * e)) tld)"
  by (simp add: train_phase_def Let_def train_segments_def forward_labels_append
      forward_labels_train_loop split: sum.splits)

lemma forward_labels_val_loop:
  "forward_labels (fst (val_loop X bs st a)) = map (\<lambda>b. tokenizer_padded X (snd b)) bs"
  by (induction bs arbitrary: a) (simp_all add: Let_def forward_labels_append val_step_def)

lemma forward_labels_val_phase:
  "forward_labels (fst (val_phase X r e vld st))
     = map (\<lambda>b. tokenizer_padded X (snd b)) (iter_loader (r (2 * e + 1)) vld)"
  by (simp add: val_phase_def Let_def forward_labels_append forward_labels_val_loop
      split: sum.splits)

lemma length_le_longest: "row \<in> set rows \<Longrightarrow> length row \<le> longest rows"
  by (induction rows) (auto simp: longest_def)

lemma length_pad_to: "length row \<le> n \<Longrightarrow> length (pad_to p n row) = n"
  by (simp add: pad_to_def)

lemma nth_pad_to:
  "k < length row \<Longrightarrow> pad_to p n row ! k = row ! k"
  "length row \<le> k \<Longrightarrow> k < n \<Longrightarrow> pad_to p n row ! k = p"
  by (simp_all add: pad_to_def nth_append)

lemma tokenizer_padded_row:
  assumes "j < length answers"
  shows "tokenizer_padded X answers ! j
           = pad_to (pad_token_id X) (longest (map (encode X) answers)) (encode X (answers ! j))"
    and "length (encode X (answers ! j)) \<le> longest (map (encode X) answers)"
  using assms by (simp_all add: tokenizer_padded_def Let_def length_le_longest)

text \<open>
  C8. In every pass of the training loop and of the validation loop the tokenizer is
  applied to the raw answers of the batch, and the labels handed to the forward pass are
  exactly its padded output; the loss read in the pass is the model's loss on these
  labels. So the labels of a phase are the padded tokenizer outputs of its batches, in
  order. In that output there is one row per answer, every row has the length of the
  longest encoding of the batch, a row starts with the encoding of its answer, and every
  position after it holds the tokenizer's pad token: no position is replaced by another
  value, in particular not by the ignore index \<open>-100\<close> (the pad token being different
  from it).
\<close>

theorem labels_are_padded_tokenizer_output:
  "tokenized (fst (train_step X i b st)) = [snd b]
   \<and> forward_labels (fst (train_step X i b st)) = [tokenizer_padded X (snd b)]
   \<and> loss_items (fst (train_step X i b st))
       = [forward_loss X (training st) (params st) (input_ids (fst b)) (pixel_values (fst b))
            (tokenizer_padded X (snd b))]
   \<and> forward_labels (fst (val_step X b st)) = [tokenizer_padded X (snd b)]
   \<and> forward_labels (fst (train_phase X r e train_loader st))
       = map (\<lambda>b. tokenizer_padded X (snd b)) (iter_loader (r (2 * e)) train_loader)
   \<and> forward_labels (fst (val_phase X r e val_loader st))
       = map (\<lambda>b. tokenizer_padded X (snd b)) (iter_loader (r (2 * e + 1)) val_loader)
   \<and> length (tokenizer_padded X answers) = length answers
   \<and> (\<forall>j < length answers.
         length (tokenizer_padded X answers ! j) = longest (map (encode X) answers)
       \<and> (\<forall>k < length (encode X (answers ! j)).
             tokenizer_padded X answers ! j ! k = encode X (answers ! j) ! k)
       \<and> (\<forall>k. length (encode X (answers ! j)) \<le> k \<and> k < longest (map (encode X) answers)
               \<longrightarrow> tokenizer_padded X answers ! j ! k = pad_token_id X))
   \<and> (pad_token_id X \<noteq> - 100 \<longrightarrow>
        (\<forall>j < length answers.
           \<forall>k. length (encode X (answers ! j)) \<le> k \<and> k < longest (map (encode X) answers)
               \<longrightarrow> tokenizer_padded X answers ! j ! k \<noteq> - 100))"
proof -
  have rows: "length (tokenizer_padded X answers ! j) = longest (map (encode X) answers)
       \<and> (\<forall>k < length (encode X (answers ! j)).
             tokenizer_padded X answers ! j ! k = encode X (answers ! j) ! k)
       \<and> (\<forall>k. length (encode X (answers ! j)) \<le> k \<and> k < longest (map (encode X) answers)
               \<longrightarrow> tokenizer_padded X answers ! j ! k = pad_token_id X)"
    if "j < length answers" for j
    using tokenizer_padded_row [OF that, of X]
    by (simp add: length_pad_to nth_pad_to)
  have len: "length (tokenizer_padded X answers) = length answers"
    by (simp add: tokenizer_padded_def Let_def)
  have vs: "forward_labels (fst (val_step X b st)) = [tokenizer_padded X (snd b)]"
    by (simp add: val_step_def Let_def)
  have li: "loss_items (fst (train_step X i b st))
       = [forward_loss X (training st) (params st) (input_ids (fst b)) (pixel_values (fst b))
            (tokenizer_padded X (snd b))]"
    by (simp add: loss_items_train_step train_step_loss)
  show ?thesis
    using rows len vs li
    by (simp add: tokenized_train_step forward_labels_train_step forward_labels_train_phase
        forward_labels_val_phase)
qed

lemma demo_padded: "tokenizer_padded scripted [''a'', ''bbb''] = [[0, 7, 2, 1, 1], [0, 7, 7, 7, 2]]"
  by (simp add: tokenizer_padded_def scripted_def Let_def longest_def pad_to_def)

theorem labels_are_padded_tokenizer_output_witness:
  "forward_labels (fst (train_step scripted 0
       (collate_fn scripted [(''q1'', ''a'', 3), (''q2'', ''bbb'', 5)]) demo_state))
     = [[[0, 7, 2, 1, 1], [0, 7, 7, 7, 2]]]
   \<and> tokenizer_padded scripted [''a'', ''bbb''] ! 0 ! 3 = pad_token_id scripted
   \<and> tokenizer_padded scripted [''a'', ''bbb''] ! 0 ! 4 = pad_token_id scripted
   \<and> pad_token_id scripted = 1
   \<and> tokenizer_padded scripted [''a'', ''bbb''] ! 0 ! 4 \<noteq> - 100"
proof -
  let ?b = "collate_fn scripted [(''q1'', ''a'', 3), (''q2'', ''bbb'', 5)]"
  let ?as = "[''a'', ''bbb'']"
  note t = labels_are_padded_tokenizer_output [where X = scripted and i = 0
      and b = ?b and st = demo_state and r = to_back and e = 0
      and train_loader = demo_train_loader and val_loader = demo_val_loader and answers = ?as]
  have b: "snd ?b = ?as"
    by (simp add: collate_fn_def)
  have p: "pad_token_id scripted = 1" by (simp add: scripted_def)
  have enc: "length (encode scripted (?as ! 0)) = 3" "longest (map (encode scripted) ?as) = 5"
    by (simp_all add: scripted_def longest_def)
  from t have "forward_labels (fst (train_step scripted 0 ?b demo_state))
      = [tokenizer_padded scripted (snd ?b)]"
    by blast
  then have w1: "forward_labels (fst (train_step scripted 0 ?b demo_state))
      = [[[0, 7, 2, 1, 1], [0, 7, 7, 7, 2]]]"
    unfolding b demo_padded .
  from t have pads: "\<forall>j < length ?as.
      \<forall>k. length (encode scripted (?as ! j)) \<le> k \<and> k < longest (map (encode scripted) ?as)
          \<longrightarrow> tokenizer_padded scripted ?as ! j ! k = pad_token_id scripted"
    by blast
  have w2: "tokenizer_padded scripted ?as ! 0 ! 3 = pad_token_id scripted"
    using pads [rule_format, of 0 3] enc by simp
  have w3: "tokenizer_padded scripted ?as ! 0 ! 4 = pad_token_id scripted"
    using pads [rule_format, of 0 4] enc by simp
  have w4: "tokenizer_padded scripted ?as ! 0 ! 4 \<noteq> - 100"
    unfolding w3 p by simp
  from w1 w2 w3 p w4 show ?thesis by blast
qed


text \<open>
  C10. The script splits prompts, answers and images one by one. For three sequences
  of one length the three splits cut at the same position, so the parts stay aligned:
  the three training parts have one length, as have the three validation parts;
  pairing the parts up gives the split of the paired-up samples; the \<open>i\<close>-th element
  of each training part is the \<open>i\<close>-th element of its sequence, and the \<open>i\<close>-th element
  of each validation part is the element of its sequence at the cut plus \<open>i\<close>.
\<close>

theorem data_split_aligned:
  assumes "length prompts = length answers" and "length answers = length images"
  shows "length (fst (data_split answers)) = length (fst (data_split prompts))
   \<and> length (fst (data_split images)) = length (fst (data_split prompts))
   \<and> length (snd (data_split answers)) = length (snd (data_split prompts))
   \<and> length (snd (data_split images)) = length (snd (data_split prompts))
   \<and> zip (fst (data_split prompts)) (zip (fst (data_split answers)) (fst (data_split images)))
       = fst (data_split (zip prompts (zip answers images)))
   \<and> zip (snd (data_split prompts)) (zip (snd (data_split answers)) (snd (data_split images)))
       = snd (data_split (zip prompts (zip answers images)))
   \<and> (\<forall>i < length (fst (data_split prompts)).
         fst (data_split prompts) ! i = prompts ! i
       \<and> fst (data_split answers) ! i = answers ! i
       \<and> fst (data_split images) ! i = images ! i)
   \<and> (\<forall>i < length (snd (data_split prompts)).
         snd (data_split prompts) ! i = prompts ! (length prompts - length prompts div 10 + i)
       \<and> snd (data_split answers) ! i = answers ! (length prompts - length prompts div 10 + i)
       \<and> snd (data_split images) ! i = images ! (length prompts - length prompts div 10 + i))"
proof -
  let ?n = "length prompts"
  let ?k = "cut_index ?n"
  have la: "length answers = ?n" and li: "length images = ?n"
    using assms by simp_all
  have lz: "length (zip prompts (zip answers images)) = ?n"
    using la li by simp
  have k: "?k \<le> ?n" by (rule cut_index_le)
  have kk: "?n - ?n div 10 = ?k" by (simp add: cut_index_def)
  show ?thesis
    unfolding data_split_take_drop la li lz fst_conv snd_conv kk
    using k la li by (simp add: take_zip drop_zip)
qed

theorem data_split_aligned_witness:
  "fst (data_split [''a'', ''b'', ''c'', ''d'', ''e'', ''f'', ''g'', ''h'', ''i'', ''j'', ''k'']) ! 9 = ''j''
   \<and> fst (data_split [0, 1, 2, 3, 4, 5, 6, 7, 8, 9, 10 :: nat]) ! 9 = 9
   \<and> snd (data_split [''a'', ''b'', ''c'', ''d'', ''e'', ''f'', ''g'', ''h'', ''i'', ''j'', ''k'']) ! 0 = ''k''
   \<and> snd (data_split [0, 1, 2, 3, 4, 5, 6, 7, 8, 9, 10 :: nat]) ! 0 = 10
   \<and> snd (data_split [10, 11, 12, 13, 14, 15, 16, 17, 18, 19, 20 :: int]) ! 0 = 20"
  using data_split_aligned [of "[''a'', ''b'', ''c'', ''d'', ''e'', ''f'', ''g'', ''h'', ''i'', ''j'', ''k'']"
      "[0, 1, 2, 3, 4, 5, 6, 7, 8, 9, 10 :: nat]" "[10, 11, 12, 13, 14, 15, 16, 17, 18, 19, 20 :: int]"]
  by (simp add: data_split_take_drop cut_index_def)

end
